theory Spec2Isabelle
  imports Complex_Main
begin

section \<open>KidBank: the ledger engine of \<^verbatim>\<open>accounts.py\<close>, \<^verbatim>\<open>database.py\<close> and \<^verbatim>\<open>currency.py\<close>\<close>

text \<open>
  The development embeds the account manager of the repository and the two tables it
  works on. Conventions of the embedding:
  \<^item> A Python \<^verbatim>\<open>float\<close> and an SQLite \<^verbatim>\<open>REAL\<close> are IEEE 754 doubles. A finite double is the
    rational number it denotes (\<^typ>\<open>rat\<close>); comparisons are exact, and \<open>+\<close> and \<open>-\<close> round
    their exact result to the nearest double (\<open>float_add\<close>, \<open>float_sub\<close>). The infinities,
    NaN and the negative zero are not values of the model.
  \<^item> A Python \<^verbatim>\<open>str\<close> is a \<^typ>\<open>string\<close>; each character stands for a code point below 256.
  \<^item> \<^verbatim>\<open>CURRENT_TIMESTAMP\<close> has a resolution of one second. The clock is an argument of
    every operation that inserts a row: the number of whole seconds it reads.
  \<^item> \<^verbatim>\<open>random.randint\<close> is an argument too: the list of the values it returns, in order.
  \<^item> An exception is a value of type \<open>error\<close>; an operation returns its outcome together
    with the database it leaves behind.
\<close>

subsection \<open>Strings\<close>

text \<open>\<^verbatim>\<open>str.isspace\<close> on one character, for the code points below 256.\<close>

definition is_space :: "char \<Rightarrow> bool" where
  "is_space c = ((of_char c :: nat) \<in> {9, 10, 11, 12, 13, 28, 29, 30, 31, 32, 133, 160})"

text \<open>\<^verbatim>\<open>str.strip()\<close>: leading and trailing whitespace removed.\<close>

definition strip :: "string \<Rightarrow> string" where
  "strip s = rev (dropWhile is_space (rev (dropWhile is_space s)))"

definition digit_char :: "nat \<Rightarrow> char" where
  "digit_char d = char_of (48 + d)"

text \<open>The decimal numeral of a natural number, as \<^verbatim>\<open>f"{n}"\<close> prints it.\<close>

fun str_nat :: "nat \<Rightarrow> string" where
  "str_nat n = (if n < 10 then [digit_char n] else str_nat (n div 10) @ [digit_char (n mod 10)])"

declare str_nat.simps [simp del]

subsection \<open>Floating-point numbers\<close>

text \<open>
  The nearest integer, a tie going to the even neighbour.
\<close>

definition round_half_even :: "rat \<Rightarrow> int" where
  "round_half_even x =
     (let f = \<lfloor>x\<rfloor>; r = x - of_int f
      in if r < 1 / 2 then f else if 1 / 2 < r then f + 1 else if even f then f else f + 1)"

text \<open>
  A finite double is \<^verbatim>\<open>m * 2^e\<close> for integers \<^verbatim>\<open>m\<close> and \<^verbatim>\<open>e\<close> with \<^verbatim>\<open>|m| < 2^53\<close> and
  \<^verbatim>\<open>-1074 <= e\<close>. Around a number \<open>x\<close> with \<^verbatim>\<open>2^k <= |x| < 2^(k+1)\<close> the doubles are the
  multiples of \<^verbatim>\<open>2^(k-52)\<close>; below \<^verbatim>\<open>2^-1022\<close>, in the subnormal range, they are the
  multiples of \<^verbatim>\<open>2^-1074\<close>. \<open>bit_length\<close> is \<^verbatim>\<open>int.bit_length\<close>, the number of binary
  digits of a natural number; \<open>floor_log2 x\<close> is the \<open>k\<close> above, for a positive \<open>x\<close>;
  \<open>pow2 e\<close> is the power \<^verbatim>\<open>2^e\<close>.
\<close>

fun bit_length :: "nat \<Rightarrow> nat" where
  "bit_length n = (if n = 0 then 0 else Suc (bit_length (n div 2)))"

declare bit_length.simps [simp del]

definition floor_log2 :: "rat \<Rightarrow> int" where
  "floor_log2 x =
     (if 1 \<le> x then int (bit_length (nat \<lfloor>x\<rfloor>)) - 1
      else - int (bit_length (nat (\<lceil>1 / x\<rceil> - 1))))"

definition pow2 :: "int \<Rightarrow> rat" where
  "pow2 e = (if 0 \<le> e then 2 ^ nat e else 1 / 2 ^ nat (- e))"

text \<open>
  Rounding to the nearest double, a tie going to the double with the even significand
  (the rounding of IEEE 754 that Python's \<open>+\<close> and \<open>-\<close> on floats and the conversion
  \<^verbatim>\<open>float("0.7")\<close> use). A result of magnitude \<^verbatim>\<open>2^1024\<close> or more, which is an infinity in
  Python, is rounded here as if the exponents had no upper end.
\<close>

definition round_double :: "rat \<Rightarrow> rat" where
  "round_double x =
     (if x = 0 then 0
      else let q = pow2 (max (floor_log2 \<bar>x\<bar>) (- 1022) - 52)
           in sgn x * of_int (round_half_even (\<bar>x\<bar> / q)) * q)"

definition is_double :: "rat \<Rightarrow> bool" where
  "is_double x = (round_double x = x)"

text \<open>\<open>a + b\<close> and \<open>a - b\<close> on two floats.\<close>

definition float_add :: "rat \<Rightarrow> rat \<Rightarrow> rat" where
  "float_add a b = round_double (a + b)"

definition float_sub :: "rat \<Rightarrow> rat \<Rightarrow> rat" where
  "float_sub a b = round_double (a - b)"

subsection \<open>Values and errors\<close>

text \<open>The values stored in the dictionaries that the operations return.\<close>

datatype pyval = PyInt int | PyFloat rat | PyStr string

type_synonym pydict = "(string \<times> pyval) list"

text \<open>
  \<open>ValueError\<close> carries its message. \<open>IntegrityError\<close> is what \<^verbatim>\<open>sqlite3\<close> raises when an
  insert violates the \<^verbatim>\<open>UNIQUE\<close> constraint on \<^verbatim>\<open>accounts.account_number\<close>.
\<close>

datatype error = ValueError string | IntegrityError

text \<open>The failure conditions of the specification, as the exceptions the code raises for them.\<close>

definition InsufficientFunds :: error where
  "InsufficientFunds = ValueError ''Insufficient funds''"

definition UnknownAccount :: "string \<Rightarrow> error" where
  "UnknownAccount account_number = ValueError (''Account '' @ account_number @ '' not found'')"

definition DuplicateIdentifier :: error where
  "DuplicateIdentifier = IntegrityError"

text \<open>The message \<^verbatim>\<open>Account type must be 'checking' or 'savings'\<close>; \<open>CHR 0x27\<close> is the quote.\<close>

definition account_type_message :: string where
  "account_type_message =
     ''Account type must be '' @ [CHR 0x27] @ ''checking'' @ [CHR 0x27] @ '' or ''
       @ [CHR 0x27] @ ''savings'' @ [CHR 0x27]"

text \<open>
  \<open>InvalidArgument\<close> is a \<open>ValueError\<close> raised by one of the local validations: any of the
  messages of \<^verbatim>\<open>create_account\<close>, \<^verbatim>\<open>deposit\<close> and \<^verbatim>\<open>withdraw\<close> that rejects an argument.
\<close>

fun InvalidArgument :: "error \<Rightarrow> bool" where
  "InvalidArgument (ValueError m) =
     (m = ''First name is required'' \<or> m = ''Last name is required''
      \<or> m = account_type_message
      \<or> take 18 m = ''Invalid currency: ''
      \<or> m = ''Initial deposit cannot be negative''
      \<or> m = ''Deposit amount must be positive''
      \<or> m = ''Withdrawal amount must be positive'')"
| "InvalidArgument IntegrityError = False"

subsection \<open>The currency registry (\<^verbatim>\<open>currency.py\<close>)\<close>

record currency =
  code :: string
  name :: string
  symbol :: string

definition CURRENCIES :: "(string \<times> currency) list" where
  "CURRENCIES =
     [(''USD'', \<lparr>code = ''USD'', name = ''US Dollars'', symbol = ''$''\<rparr>),
      (''BB'', \<lparr>code = ''BB'', name = ''BrainBucks'', symbol = ''BB''\<rparr>)]"

definition is_valid_currency :: "string \<Rightarrow> bool" where
  "is_valid_currency c = (c \<in> set (map fst CURRENCIES))"

definition get_currency :: "string \<Rightarrow> error + currency" where
  "get_currency c =
     (case map_of CURRENCIES c of
        None \<Rightarrow> Inl (ValueError (''Unknown currency: '' @ c))
      | Some cur \<Rightarrow> Inr cur)"

subsection \<open>The store (\<^verbatim>\<open>database.py\<close>)\<close>

text \<open>
  One record per table row, the columns under their names (\<open>a_id\<close> and \<open>t_id\<close> are the two
  \<^verbatim>\<open>id\<close> columns, \<open>a_created_at\<close> and \<open>t_created_at\<close> the two \<^verbatim>\<open>created_at\<close> columns).
\<close>

record account_row =
  a_id :: nat
  account_number :: string
  first_name :: string
  last_name :: string
  account_type :: string
  currency :: string
  balance :: rat
  a_created_at :: nat

record transaction_row =
  t_id :: nat
  account_id :: nat
  transaction_type :: string
  amount :: rat
  balance_after :: rat
  description :: string
  t_created_at :: nat

text \<open>
  Both tables hold their rows in the order of insertion, which is the order of their
  \<^verbatim>\<open>AUTOINCREMENT\<close> keys; \<open>account_seq\<close> and \<open>transaction_seq\<close> are the largest keys handed
  out so far (the table \<^verbatim>\<open>sqlite_sequence\<close>).
\<close>

record database =
  accounts :: "account_row list"
  transactions :: "transaction_row list"
  account_seq :: nat
  transaction_seq :: nat

text \<open>A store right after \<^verbatim>\<open>_initialize_schema\<close> on a new file.\<close>

definition empty_db :: database where
  "empty_db = \<lparr>accounts = [], transactions = [], account_seq = 0, transaction_seq = 0\<rparr>"

text \<open>
  \<^verbatim>\<open>INSERT INTO accounts\<close>: the \<^verbatim>\<open>UNIQUE\<close> constraint on the account number is checked by the
  store; the new key is returned as \<^verbatim>\<open>cursor.lastrowid\<close>.
\<close>

definition insert_account ::
  "database \<Rightarrow> nat \<Rightarrow> string \<Rightarrow> string \<Rightarrow> string \<Rightarrow> string \<Rightarrow> string \<Rightarrow> rat \<Rightarrow> error + (nat \<times> database)" where
  "insert_account db now number fname lname atype cur bal =
     (if \<exists>a \<in> set (accounts db). account_number a = number then Inl IntegrityError
      else
        let new_id = Suc (account_seq db);
            row = \<lparr>a_id = new_id, account_number = number, first_name = fname, last_name = lname,
                   account_type = atype, currency = cur, balance = bal, a_created_at = now\<rparr>
        in Inr (new_id, db\<lparr>accounts := accounts db @ [row], account_seq := new_id\<rparr>))"

text \<open>\<^verbatim>\<open>INSERT INTO transactions\<close>.\<close>

definition insert_transaction ::
  "database \<Rightarrow> nat \<Rightarrow> nat \<Rightarrow> string \<Rightarrow> rat \<Rightarrow> rat \<Rightarrow> string \<Rightarrow> database" where
  "insert_transaction db now acc_id ttype amt bal_after descr =
     (let new_id = Suc (transaction_seq db);
          row = \<lparr>t_id = new_id, account_id = acc_id, transaction_type = ttype, amount = amt,
                 balance_after = bal_after, description = descr, t_created_at = now\<rparr>
      in db\<lparr>transactions := transactions db @ [row], transaction_seq := new_id\<rparr>)"

text \<open>\<^verbatim>\<open>UPDATE accounts SET balance = ? WHERE account_number = ?\<close>.\<close>

definition update_balance :: "database \<Rightarrow> rat \<Rightarrow> string \<Rightarrow> database" where
  "update_balance db new_balance number =
     db\<lparr>accounts := map (\<lambda>a. if account_number a = number then a\<lparr>balance := new_balance\<rparr> else a)
                         (accounts db)\<rparr>"

subsection \<open>The account manager (\<^verbatim>\<open>accounts.py\<close>)\<close>

text \<open>
  \<^verbatim>\<open>generate_account_number\<close>: the loop draws a number, prints it and asks the store whether
  an account has it. The argument is the list of the values \<^verbatim>\<open>random.randint\<close> returns; when
  every one of them is taken the loop has not returned, which is the result \<open>None\<close>.
\<close>

fun generate_account_number :: "database \<Rightarrow> nat list \<Rightarrow> string option" where
  "generate_account_number db [] = None"
| "generate_account_number db (r # rs) =
     (let number = str_nat r
      in if find (\<lambda>a. account_number a = number) (accounts db) = None then Some number
         else generate_account_number db rs)"

text \<open>
  \<^verbatim>\<open>create_account\<close>. The result is \<open>None\<close> when the number generator does not return;
  otherwise the outcome and the store after the call.
\<close>

definition create_account ::
  "database \<Rightarrow> nat \<Rightarrow> nat list \<Rightarrow> string \<Rightarrow> string \<Rightarrow> string \<Rightarrow> string \<Rightarrow> rat
     \<Rightarrow> ((error + pydict) \<times> database) option" where
  "create_account db now draws fname lname atype cur initial_deposit =
     (if fname = [] \<or> strip fname = [] then Some (Inl (ValueError ''First name is required''), db)
      else if lname = [] \<or> strip lname = [] then Some (Inl (ValueError ''Last name is required''), db)
      else if atype \<notin> set [''checking'', ''savings'']
        then Some (Inl (ValueError account_type_message), db)
      else if \<not> is_valid_currency cur then Some (Inl (ValueError (''Invalid currency: '' @ cur)), db)
      else if initial_deposit < 0 then Some (Inl (ValueError ''Initial deposit cannot be negative''), db)
      else
        case generate_account_number db draws of
          None \<Rightarrow> None
        | Some number \<Rightarrow>
            (case insert_account db now number (strip fname) (strip lname) atype cur initial_deposit of
               Inl e \<Rightarrow> Some (Inl e, db)
             | Inr (acc_id, db1) \<Rightarrow>
                 let db2 = (if initial_deposit > 0
                            then insert_transaction db1 now acc_id ''deposit'' initial_deposit
                                   initial_deposit ''Initial deposit''
                            else db1)
                 in Some (Inr [(''id'', PyInt (int acc_id)),
                               (''account_number'', PyStr number),
                               (''first_name'', PyStr (strip fname)),
                               (''last_name'', PyStr (strip lname)),
                               (''account_type'', PyStr atype),
                               (''currency'', PyStr cur),
                               (''balance'', PyFloat initial_deposit)], db2)))"

text \<open>
  \<^verbatim>\<open>get_account\<close>: the dictionary it builds has the eight columns of the row under their
  own names, so the row record stands for it.
\<close>

definition get_account :: "database \<Rightarrow> string \<Rightarrow> account_row option" where
  "get_account db number = find (\<lambda>a. account_number a = number) (accounts db)"

text \<open>\<^verbatim>\<open>deposit\<close>; \<^verbatim>\<open>description or "Deposit"\<close> replaces the empty description.\<close>

definition deposit :: "database \<Rightarrow> nat \<Rightarrow> string \<Rightarrow> rat \<Rightarrow> string \<Rightarrow> (error + pydict) \<times> database" where
  "deposit db now number amt descr =
     (if amt \<le> 0 then (Inl (ValueError ''Deposit amount must be positive''), db)
      else
        case get_account db number of
          None \<Rightarrow> (Inl (ValueError (''Account '' @ number @ '' not found'')), db)
        | Some account \<Rightarrow>
            let new_balance = float_add (balance account) amt;
                db1 = update_balance db new_balance number;
                db2 = insert_transaction db1 now (a_id account) ''deposit'' amt new_balance
                        (if descr = [] then ''Deposit'' else descr)
            in (Inr [(''account_number'', PyStr number),
                     (''transaction_type'', PyStr ''deposit''),
                     (''amount'', PyFloat amt),
                     (''new_balance'', PyFloat new_balance)], db2))"

text \<open>\<^verbatim>\<open>withdraw\<close>.\<close>

definition withdraw :: "database \<Rightarrow> nat \<Rightarrow> string \<Rightarrow> rat \<Rightarrow> string \<Rightarrow> (error + pydict) \<times> database" where
  "withdraw db now number amt descr =
     (if amt \<le> 0 then (Inl (ValueError ''Withdrawal amount must be positive''), db)
      else
        case get_account db number of
          None \<Rightarrow> (Inl (ValueError (''Account '' @ number @ '' not found'')), db)
        | Some account \<Rightarrow>
            if balance account < amt then (Inl (ValueError ''Insufficient funds''), db)
            else
              let new_balance = float_sub (balance account) amt;
                  db1 = update_balance db new_balance number;
                  db2 = insert_transaction db1 now (a_id account) ''withdrawal'' amt new_balance
                          (if descr = [] then ''Withdrawal'' else descr)
              in (Inr [(''account_number'', PyStr number),
                       (''transaction_type'', PyStr ''withdrawal''),
                       (''amount'', PyFloat amt),
                       (''new_balance'', PyFloat new_balance)], db2))"

text \<open>
  \<^verbatim>\<open>get_transactions\<close>. The join visits the accounts with the given number and, for each,
  the transactions that refer to its key, in the order of the table. \<^verbatim>\<open>ORDER BY created_at DESC\<close>
  compares the timestamps only; rows with the same timestamp stay in the order in which
  the scan produced them (SQLite sorts the rows of a query with a \<^verbatim>\<open>LIMIT\<close> on the key
  followed by their sequence number in the scan). A negative \<^verbatim>\<open>LIMIT\<close> is no limit. Each
  dictionary of the result copies the columns of its row except \<^verbatim>\<open>account_id\<close>; the row
  stands for it.
\<close>

definition get_transactions :: "database \<Rightarrow> string \<Rightarrow> int \<Rightarrow> transaction_row list" where
  "get_transactions db number limit =
     (let joined = concat (map (\<lambda>a. filter (\<lambda>t. account_id t = a_id a) (transactions db))
                             (filter (\<lambda>a. account_number a = number) (accounts db)));
          ordered = sort_key (\<lambda>t. - int (t_created_at t)) joined
      in if limit < 0 then ordered else take (nat limit) ordered)"

subsection \<open>Formatting of amounts (\<^verbatim>\<open>Currency.format_amount\<close>)\<close>










subsection \<open>Sequences of operations\<close>

text \<open>
  A call of one of the three mutating operations, with the reading of the clock at the
  call. \<open>run\<close> performs a list of calls one after the other; a call that raises leaves the
  store as the operation left it, and the run goes on. The result is \<open>None\<close> when a call
  of \<^verbatim>\<open>create_account\<close> does not return.
\<close>

datatype operation =
    CreateAccount "nat list" string string string string rat
  | Deposit string rat string
  | Withdraw string rat string

fun apply_operation :: "database \<Rightarrow> nat \<times> operation \<Rightarrow> database option" where
  "apply_operation db (now, CreateAccount draws fname lname atype cur initial_deposit) =
     map_option snd (create_account db now draws fname lname atype cur initial_deposit)"
| "apply_operation db (now, Deposit number amt descr) = Some (snd (deposit db now number amt descr))"
| "apply_operation db (now, Withdraw number amt descr) = Some (snd (withdraw db now number amt descr))"

fun run :: "database \<Rightarrow> (nat \<times> operation) list \<Rightarrow> database option" where
  "run db [] = Some db"
| "run db (x # xs) = (case apply_operation db x of None \<Rightarrow> None | Some db' \<Rightarrow> run db' xs)"

text \<open>
  The store is a file that other connections can write to. \<^verbatim>\<open>create_account\<close> looks a
  candidate number up (a \<^verbatim>\<open>SELECT\<close> outside any transaction) and inserts the row in a later
  statement, with no \<^verbatim>\<open>try\<close> around it. \<open>create_account_between\<close> is \<^verbatim>\<open>create_account\<close> with
  the calls \<open>others\<close>, made on other connections, running after the number generator has
  returned and before the \<^verbatim>\<open>INSERT\<close>; with no such calls it is \<open>create_account\<close>.
\<close>

definition create_account_between ::
  "database \<Rightarrow> nat \<Rightarrow> nat list \<Rightarrow> string \<Rightarrow> string \<Rightarrow> string \<Rightarrow> string \<Rightarrow> rat
     \<Rightarrow> (nat \<times> operation) list \<Rightarrow> ((error + pydict) \<times> database) option" where
  "create_account_between db now draws fname lname atype cur initial_deposit others =
     (if fname = [] \<or> strip fname = [] then Some (Inl (ValueError ''First name is required''), db)
      else if lname = [] \<or> strip lname = [] then Some (Inl (ValueError ''Last name is required''), db)
      else if atype \<notin> set [''checking'', ''savings'']
        then Some (Inl (ValueError account_type_message), db)
      else if \<not> is_valid_currency cur then Some (Inl (ValueError (''Invalid currency: '' @ cur)), db)
      else if initial_deposit < 0 then Some (Inl (ValueError ''Initial deposit cannot be negative''), db)
      else
        case generate_account_number db draws of
          None \<Rightarrow> None
        | Some number \<Rightarrow>
            (case run db others of
               None \<Rightarrow> None
             | Some db0 \<Rightarrow>
                 (case insert_account db0 now number (strip fname) (strip lname) atype cur
                         initial_deposit of
                    Inl e \<Rightarrow> Some (Inl e, db0)
                  | Inr (acc_id, db1) \<Rightarrow>
                      let db2 = (if initial_deposit > 0
                                 then insert_transaction db1 now acc_id ''deposit'' initial_deposit
                                        initial_deposit ''Initial deposit''
                                 else db1)
                      in Some (Inr [(''id'', PyInt (int acc_id)),
                                    (''account_number'', PyStr number),
                                    (''first_name'', PyStr (strip fname)),
                                    (''last_name'', PyStr (strip lname)),
                                    (''account_type'', PyStr atype),
                                    (''currency'', PyStr cur),
                                    (''balance'', PyFloat initial_deposit)], db2))))"

text \<open>
  Scenario 1 of the specification, with the three readings of the clock and the number
  that the generator draws: an account for Alice Lee, a deposit of 100, a withdrawal of 30.
\<close>

definition scenario1 :: "nat \<Rightarrow> nat \<Rightarrow> nat \<Rightarrow> (nat \<times> operation) list" where
  "scenario1 t0 t1 t2 =
     [(t0, CreateAccount [123456] ''Alice'' ''Lee'' ''checking'' ''USD'' 0),
      (t1, Deposit ''123456'' 100 []),
      (t2, Withdraw ''123456'' 30 [])]"

definition scenario1_db :: "nat \<Rightarrow> nat \<Rightarrow> nat \<Rightarrow> database" where
  "scenario1_db t0 t1 t2 =
     \<lparr>accounts = [\<lparr>a_id = 1, account_number = ''123456'', first_name = ''Alice'',
                   last_name = ''Lee'', account_type = ''checking'', currency = ''USD'',
                   balance = 70, a_created_at = t0\<rparr>],
      transactions = [\<lparr>t_id = 1, account_id = 1, transaction_type = ''deposit'', amount = 100,
                       balance_after = 100, description = ''Deposit'', t_created_at = t1\<rparr>,
                      \<lparr>t_id = 2, account_id = 1, transaction_type = ''withdrawal'', amount = 30,
                       balance_after = 70, description = ''Withdrawal'', t_created_at = t2\<rparr>],
      account_seq = 1, transaction_seq = 2\<rparr>"

text \<open>
  A second scenario: the amounts are the floats that \<^verbatim>\<open>float("0.7")\<close> and \<^verbatim>\<open>float("0.1")\<close>
  give (the application converts the text typed by the user so). An account is opened
  with nothing, 0.7 is deposited and 0.1 is withdrawn twice. \<open>scenario_tenths_db\<close> is the
  store after it: the balances 0.7, 0.6 and 0.5 as doubles.
\<close>

definition scenario_tenths :: "(nat \<times> operation) list" where
  "scenario_tenths =
     [(5, CreateAccount [123456] ''Alice'' ''Lee'' ''checking'' ''USD'' 0),
      (6, Deposit ''123456'' (round_double (7 / 10)) []),
      (7, Withdraw ''123456'' (round_double (1 / 10)) []),
      (8, Withdraw ''123456'' (round_double (1 / 10)) [])]"

definition scenario_tenths_db :: database where
  "scenario_tenths_db =
     \<lparr>accounts = [\<lparr>a_id = 1, account_number = ''123456'', first_name = ''Alice'',
                   last_name = ''Lee'', account_type = ''checking'', currency = ''USD'',
                   balance = 1 / 2, a_created_at = 5\<rparr>],
      transactions = [\<lparr>t_id = 1, account_id = 1, transaction_type = ''deposit'',
                       amount = 3152519739159347 / 4503599627370496,
                       balance_after = 3152519739159347 / 4503599627370496,
                       description = ''Deposit'', t_created_at = 6\<rparr>,
                      \<lparr>t_id = 2, account_id = 1, transaction_type = ''withdrawal'',
                       amount = 3602879701896397 / 36028797018963968,
                       balance_after = 5404319552844595 / 9007199254740992,
                       description = ''Withdrawal'', t_created_at = 7\<rparr>,
                      \<lparr>t_id = 3, account_id = 1, transaction_type = ''withdrawal'',
                       amount = 3602879701896397 / 36028797018963968,
                       balance_after = 1 / 2,
                       description = ''Withdrawal'', t_created_at = 8\<rparr>],
      account_seq = 1, transaction_seq = 3\<rparr>"

subsection \<open>The history of an account\<close>

text \<open>
  The transactions of the account with key \<open>i\<close>, oldest first, and the two sums of the
  conservation property.
\<close>

definition history :: "database \<Rightarrow> nat \<Rightarrow> transaction_row list" where
  "history db i = filter (\<lambda>t. account_id t = i) (transactions db)"

definition total_amount :: "string \<Rightarrow> transaction_row list \<Rightarrow> rat" where
  "total_amount kind ts = sum_list (map amount (filter (\<lambda>t. transaction_type t = kind) ts))"

definition last_balance_after :: "transaction_row list \<Rightarrow> rat" where
  "last_balance_after ts = (if ts = [] then 0 else balance_after (last ts))"

text \<open>
  The stores that the operations keep to: account numbers and keys are not shared, and no
  key in either table is beyond the counter of the accounts.
\<close>

definition well_formed :: "database \<Rightarrow> bool" where
  "well_formed db =
     (distinct (map account_number (accounts db))
      \<and> distinct (map a_id (accounts db))
      \<and> list_all (\<lambda>a. a_id a \<le> account_seq db) (accounts db)
      \<and> list_all (\<lambda>t. account_id t \<le> account_seq db) (transactions db))"

text \<open>
  The balance that the transactions of an account give when they are applied one after
  the other to a balance of zero, as \<^verbatim>\<open>deposit\<close> and \<^verbatim>\<open>withdraw\<close> apply them; and the sum of its
  deposits less the sum of its withdrawals. \<open>exact_sums\<close> says that this difference is a
  double after each transaction of the list.
\<close>

definition posting :: "rat \<Rightarrow> transaction_row \<Rightarrow> rat" where
  "posting b t =
     (if transaction_type t = ''deposit'' then float_add b (amount t)
      else if transaction_type t = ''withdrawal'' then float_sub b (amount t)
      else b)"

definition replay :: "transaction_row list \<Rightarrow> rat" where
  "replay ts = foldl posting 0 ts"

definition net :: "transaction_row list \<Rightarrow> rat" where
  "net ts = total_amount ''deposit'' ts - total_amount ''withdrawal'' ts"

definition exact_sums :: "transaction_row list \<Rightarrow> bool" where
  "exact_sums ts = list_all (\<lambda>k. is_double (net (take k ts))) [1 ..< Suc (length ts)]"

text \<open>The amount that a call passes, and the runs in which every such amount is a double.\<close>

fun amount_of :: "operation \<Rightarrow> rat" where
  "amount_of (CreateAccount draws fname lname atype cur initial_deposit) = initial_deposit"
| "amount_of (Deposit number amt descr) = amt"
| "amount_of (Withdraw number amt descr) = amt"

definition double_amounts :: "(nat \<times> operation) list \<Rightarrow> bool" where
  "double_amounts ops = list_all (\<lambda>x. is_double (amount_of (snd x))) ops"

text \<open>The properties of the ledger that the claims are about, for one store.\<close>

definition conserved :: "database \<Rightarrow> bool" where
  "conserved db =
     list_all (\<lambda>a. balance a = total_amount ''deposit'' (history db (a_id a))
                               - total_amount ''withdrawal'' (history db (a_id a))) (accounts db)"

definition replayed :: "database \<Rightarrow> bool" where
  "replayed db = list_all (\<lambda>a. balance a = replay (history db (a_id a))) (accounts db)"

definition balance_is_last :: "database \<Rightarrow> bool" where
  "balance_is_last db =
     list_all (\<lambda>a. balance a = last_balance_after (history db (a_id a))) (accounts db)"

definition non_negative :: "database \<Rightarrow> bool" where
  "non_negative db = list_all (\<lambda>a. 0 \<le> balance a) (accounts db)"

section \<open>Basic facts\<close>

subsection \<open>Rounding\<close>

lemma bit_length_eq: "2 ^ k \<le> n \<Longrightarrow> n < 2 ^ Suc k \<Longrightarrow> bit_length n = Suc k"
proof (induction k arbitrary: n)
  case 0
  then have "n = 1" by simp
  then show ?case by (simp add: bit_length.simps)
next
  case (Suc k)
  from Suc.prems have n: "n \<noteq> 0" "2 ^ k \<le> n div 2" "n div 2 < 2 ^ Suc k" by auto
  have "bit_length n = Suc (bit_length (n div 2))"
    using n(1) by (subst bit_length.simps) simp
  then show ?case using Suc.IH [OF n(2,3)] by simp
qed

lemma nat_between:
  assumes "(2::int) ^ k \<le> z" and "z < 2 ^ Suc k"
  shows "2 ^ k \<le> nat z" and "nat z < 2 ^ Suc k"
proof -
  have "(0::int) \<le> 2 ^ k" by simp
  then have "0 \<le> z" using assms(1) by linarith
  then obtain n where n: "z = int n" using nonneg_int_cases by blast
  have "int (2 ^ k) \<le> int n" "int n < int (2 ^ Suc k)" using assms n by simp_all
  then have "2 ^ k \<le> n" "n < 2 ^ Suc k" by (simp_all only: of_nat_le_iff of_nat_less_iff)
  then show "2 ^ k \<le> nat z" and "nat z < 2 ^ Suc k" using n by simp_all
qed

lemma pow2_pos: "0 < pow2 e"
  by (simp add: pow2_def)

lemma pow2_nonneg: "0 \<le> k \<Longrightarrow> pow2 k = 2 ^ nat k"
  by (simp add: pow2_def)

lemma pow2_neg: "k < 0 \<Longrightarrow> pow2 k = 1 / 2 ^ nat (- k)"
  by (simp add: pow2_def)

lemma pow2_neg_Suc: "k < 0 \<Longrightarrow> pow2 (k + 1) = 1 / 2 ^ (nat (- k) - 1)"
proof -
  assume k: "k < 0"
  show ?thesis
  proof (cases "k = -1")
    case True
    then show ?thesis by (simp add: pow2_def)
  next
    case False
    with k have "k + 1 < 0" by simp
    moreover have "nat (- (k + 1)) = nat (- k) - 1" using k by simp
    ultimately show ?thesis by (simp add: pow2_def)
  qed
qed

lemma floor_log2_eq:
  assumes "pow2 k \<le> x" and "x < pow2 (k + 1)"
  shows "floor_log2 x = k"
proof (cases "0 \<le> k")
  case True
  then have lo: "(2::rat) ^ nat k \<le> x" and hi: "x < 2 ^ Suc (nat k)"
    using assms by (simp_all add: pow2_def nat_add_distrib)
  have "(1::rat) \<le> 2 ^ nat k" by simp
  then have x1: "1 \<le> x" using lo by linarith
  have "of_int (2 ^ nat k) \<le> x" using lo by simp
  then have a: "(2::int) ^ nat k \<le> \<lfloor>x\<rfloor>" by (simp only: le_floor_iff)
  have "x < of_int (2 ^ Suc (nat k))" using hi by simp
  then have b: "\<lfloor>x\<rfloor> < (2::int) ^ Suc (nat k)" by (simp only: floor_less_iff)
  from bit_length_eq [OF nat_between [OF a b]] show ?thesis using x1 True by (simp add: floor_log2_def)
next
  case False
  then have k: "k < 0" by simp
  define j where "j = nat (- k) - 1"
  have kj: "nat (- k) = Suc j" using k by (simp add: j_def)
  have lo: "1 / 2 ^ Suc j \<le> x" using assms(1) pow2_neg [OF k] kj by simp
  have hi: "x < 1 / 2 ^ j" using assms(2) pow2_neg_Suc [OF k] by (simp add: j_def)
  have P: "0 < (2::rat) ^ Suc j" and Q: "0 < (2::rat) ^ j" by simp_all
  have "0 < 1 / (2::rat) ^ Suc j" using P by (simp only: zero_less_divide_1_iff)
  then have x0: "0 < x" using lo by linarith
  have "1 / (2::rat) ^ j \<le> 1" using Q by (simp only: pos_divide_le_eq) simp
  then have x1: "\<not> 1 \<le> x" using hi by linarith
  have "1 \<le> x * 2 ^ Suc j" using lo by (simp only: pos_divide_le_eq [OF P])
  then have "1 \<le> 2 ^ Suc j * x" by (simp only: mult.commute)
  then have yl: "1 / x \<le> 2 ^ Suc j" by (simp only: pos_divide_le_eq [OF x0])
  have "x * 2 ^ j < 1" using hi by (simp only: pos_less_divide_eq [OF Q])
  then have "2 ^ j * x < 1" by (simp only: mult.commute)
  then have yh: "2 ^ j < 1 / x" by (simp only: pos_less_divide_eq [OF x0])
  have "1 / x \<le> of_int (2 ^ Suc j)" using yl by simp
  then have a: "\<lceil>1 / x\<rceil> \<le> 2 ^ Suc j" by (simp only: ceiling_le_iff)
  have "of_int (2 ^ j) < 1 / x" using yh by simp
  then have b: "2 ^ j < \<lceil>1 / x\<rceil>" by (simp only: less_ceiling_iff)
  have "2 ^ j \<le> \<lceil>1 / x\<rceil> - 1" "\<lceil>1 / x\<rceil> - 1 < 2 ^ Suc j"
    using a b by simp_all
  from bit_length_eq [OF nat_between [OF this]] show ?thesis using x1 k kj by (simp add: floor_log2_def)
qed

lemma round_half_even_eq:
  "of_int m - 1 / 2 < x \<Longrightarrow> x < of_int m + 1 / 2 \<Longrightarrow> round_half_even x = m"
proof -
  assume a: "of_int m - 1 / 2 < x" "x < of_int m + 1 / 2"
  have "\<lfloor>x\<rfloor> = m \<or> \<lfloor>x\<rfloor> = m - 1" using a by linarith
  then show ?thesis
  proof
    assume f: "\<lfloor>x\<rfloor> = m"
    then have "x - of_int m < 1 / 2" using a by linarith
    then show ?thesis using f by (simp add: round_half_even_def Let_def)
  next
    assume f: "\<lfloor>x\<rfloor> = m - 1"
    then have "1 / 2 < x - of_int (m - 1)" using a by simp
    then show ?thesis using f by (simp add: round_half_even_def Let_def)
  qed
qed

lemma round_half_even_tie:
  assumes "even m" and "x = of_int m - 1 / 2 \<or> x = of_int m + 1 / 2"
  shows "round_half_even x = m"
  using assms(2)
proof
  assume x: "x = of_int m - 1 / 2"
  then have f: "\<lfloor>x\<rfloor> = m - 1" by linarith
  then have "x - of_int \<lfloor>x\<rfloor> = 1 / 2" using x by simp
  then show ?thesis using f assms(1) by (simp add: round_half_even_def Let_def)
next
  assume x: "x = of_int m + 1 / 2"
  then have f: "\<lfloor>x\<rfloor> = m" by linarith
  then have "x - of_int \<lfloor>x\<rfloor> = 1 / 2" using x by simp
  then show ?thesis using f assms(1) by (simp add: round_half_even_def Let_def)
qed

lemma round_half_even_nonneg: "0 \<le> x \<Longrightarrow> 0 \<le> round_half_even x"
proof -
  assume "0 \<le> x"
  then have "0 \<le> \<lfloor>x\<rfloor>" by simp
  then show ?thesis by (simp add: round_half_even_def Let_def)
qed

lemma round_double_eq:
  assumes "x \<noteq> 0" and "pow2 k \<le> \<bar>x\<bar>" and "\<bar>x\<bar> < pow2 (k + 1)"
    and "q = pow2 (max k (- 1022) - 52)"
    and "round_half_even (\<bar>x\<bar> / q) = m"
  shows "round_double x = sgn x * of_int m * q"
  using assms(1,5) unfolding round_double_def floor_log2_eq [OF assms(2,3)] assms(4) [symmetric]
  by (simp add: Let_def)

lemma round_double_0: "round_double 0 = 0"
  by (simp add: round_double_def)

lemma round_double_nonneg: "0 \<le> x \<Longrightarrow> 0 \<le> round_double x"
proof (cases "x = 0")
  case True
  then show ?thesis by (simp add: round_double_def)
next
  case False
  assume "0 \<le> x"
  with False have x: "0 < x" by simp
  have "0 \<le> round_half_even (\<bar>x\<bar> / pow2 e)" for e
    by (rule round_half_even_nonneg) (use x pow2_pos [of e] in simp)
  then show ?thesis
    using x pow2_pos by (simp add: round_double_def Let_def less_imp_le)
qed


lemma round_double_pos:
  assumes "0 < x" and "pow2 k \<le> x" and "x < pow2 (k + 1)"
    and "q = pow2 (max k (- 1022) - 52)"
    and "of_int m - 1 / 2 < x / q" and "x / q < of_int m + 1 / 2"
  shows "round_double x = of_int m * q"
proof -
  have x: "\<bar>x\<bar> = x" "x \<noteq> 0" "sgn x = 1" using assms(1) by simp_all
  have "round_half_even (\<bar>x\<bar> / q) = m"
    unfolding x by (rule round_half_even_eq [OF assms(5,6)])
  from round_double_eq [OF x(2) _ _ assms(4) this] assms(2,3) show ?thesis
    unfolding x by simp
qed

text \<open>The doubles of the scenarios.\<close>

lemma pow2_simps:
  "pow2 4 = 16" "pow2 5 = 32" "pow2 6 = 64" "pow2 7 = 128"
  "pow2 (- 48) = 1 / 281474976710656" "pow2 (- 47) = 1 / 140737488355328"
  "pow2 (- 46) = 1 / 70368744177664"
  "pow2 (- 4) = 1 / 16" "pow2 (- 3) = 1 / 8" "pow2 (- 2) = 1 / 4" "pow2 (- 1) = 1 / 2" "pow2 0 = 1"
  "pow2 (- 56) = 1 / 72057594037927936" "pow2 (- 54) = 1 / 18014398509481984"
  "pow2 (- 53) = 1 / 9007199254740992"
  by (simp_all add: pow2_def)

lemma round_double_100: "round_double 100 = 100"
  using round_double_pos [of 100 6 "1 / 70368744177664" 7036874417766400]
  by (simp add: pow2_simps)

lemma round_double_70: "round_double 70 = 70"
  using round_double_pos [of 70 6 "1 / 70368744177664" 4925812092436480]
  by (simp add: pow2_simps)

lemma round_double_30: "round_double 30 = 30"
  using round_double_pos [of 30 4 "1 / 281474976710656" 8444249301319680]
  by (simp add: pow2_simps)

lemma round_double_7_10: "round_double (7 / 10) = 3152519739159347 / 4503599627370496"
  using round_double_pos [of "7 / 10" "- 1" "1 / 9007199254740992" 6305039478318694]
  by (simp add: pow2_simps)

lemma round_double_1_10: "round_double (1 / 10) = 3602879701896397 / 36028797018963968"
  using round_double_pos [of "1 / 10" "- 4" "1 / 72057594037927936" 7205759403792794]
  by (simp add: pow2_simps)

lemma float_add_tenths:
  "float_add 0 (3152519739159347 / 4503599627370496) = 3152519739159347 / 4503599627370496"
  unfolding float_add_def
  using round_double_pos [of "3152519739159347 / 4503599627370496" "- 1" "1 / 9007199254740992"
      6305039478318694]
  by (simp add: pow2_simps)

lemma float_sub_tenths:
  "float_sub (3152519739159347 / 4503599627370496) (3602879701896397 / 36028797018963968)
     = 5404319552844595 / 9007199254740992"
  unfolding float_sub_def
  using round_double_pos [of "3152519739159347 / 4503599627370496 - 3602879701896397 / 36028797018963968"
      "- 1" "1 / 9007199254740992" 5404319552844595]
  by (simp add: pow2_simps)

lemma float_sub_tenths_tie:
  "float_sub (5404319552844595 / 9007199254740992) (3602879701896397 / 36028797018963968) = 1 / 2"
proof -
  let ?x = "5404319552844595 / 9007199254740992 - 3602879701896397 / 36028797018963968 :: rat"
  have x: "?x = 18014398509481983 / 36028797018963968" by simp
  have r: "round_half_even (\<bar>?x\<bar> / (1 / 18014398509481984)) = 9007199254740992"
    by (rule round_half_even_tie) (simp_all add: x)
  from round_double_eq [of ?x "- 2" "1 / 18014398509481984" 9007199254740992, OF _ _ _ _ r]
  show ?thesis unfolding float_sub_def by (simp add: pow2_simps)
qed

lemma is_double_tenths: "is_double (round_double (7 / 10))" "is_double (round_double (1 / 10))"
proof -
  have "round_double (3152519739159347 / 4503599627370496) = 3152519739159347 / 4503599627370496"
    using float_add_tenths by (simp add: float_add_def)
  moreover have "round_double (3602879701896397 / 36028797018963968)
      = 3602879701896397 / 36028797018963968"
    using round_double_pos [of "3602879701896397 / 36028797018963968" "- 4"
        "1 / 72057594037927936" 7205759403792794]
    by (simp add: pow2_simps)
  ultimately show "is_double (round_double (7 / 10))" "is_double (round_double (1 / 10))"
    by (simp_all add: is_double_def round_double_7_10 round_double_1_10)
qed

lemma float_scenario1:
  "float_add 0 100 = 100" "float_sub 100 30 = 70" "float_sub 70 70 = 0"
  by (simp_all add: float_add_def float_sub_def round_double_100 round_double_70 round_double_0)

lemma is_double_scenario1: "is_double 0" "is_double 100" "is_double 30" "is_double 70"
  by (simp_all add: is_double_def round_double_0 round_double_100 round_double_30 round_double_70)

subsection \<open>The operations\<close>

lemma find_Some_set: "find P xs = Some a \<Longrightarrow> a \<in> set xs \<and> P a"
  by (induction xs) (auto split: if_splits)

lemma get_account_Some: "get_account db n = Some a \<Longrightarrow> a \<in> set (accounts db) \<and> account_number a = n"
  unfolding get_account_def by (rule find_Some_set)

lemma get_account_None: "get_account db n = None \<longleftrightarrow> n \<notin> account_number ` set (accounts db)"
  unfolding get_account_def by (auto simp: find_None_iff)

lemma generate_account_number_Some:
  "generate_account_number db draws = Some n \<Longrightarrow>
     n \<notin> account_number ` set (accounts db) \<and> n \<in> str_nat ` set draws"
  by (induction draws) (auto simp: Let_def find_None_iff split: if_splits)

lemma generate_account_number_skips:
  "\<forall>r \<in> set taken. str_nat r \<in> account_number ` set (accounts db) \<Longrightarrow>
   str_nat r0 \<notin> account_number ` set (accounts db) \<Longrightarrow>
   generate_account_number db (taken @ r0 # rest) = Some (str_nat r0)"
  by (induction taken) (force simp: Let_def find_None_iff)+

lemma insert_account_fresh:
  "n \<notin> account_number ` set (accounts db) \<Longrightarrow>
   insert_account db now n f l ty c b =
     Inr (Suc (account_seq db),
          db\<lparr>accounts := accounts db @ [\<lparr>a_id = Suc (account_seq db), account_number = n,
                 first_name = f, last_name = l, account_type = ty, currency = c, balance = b,
                 a_created_at = now\<rparr>],
             account_seq := Suc (account_seq db)\<rparr>)"
  by (auto simp: insert_account_def Let_def)

lemma create_account_cases:
  assumes "create_account db now draws f l ty c d = Some (res, db')"
  shows "(\<exists>m. res = Inl (ValueError m) \<and> db' = db)
       \<or> (\<exists>n. n \<notin> account_number ` set (accounts db) \<and> n \<in> str_nat ` set draws \<and> 0 \<le> d
            \<and> res = Inr [(''id'', PyInt (int (Suc (account_seq db)))),
                          (''account_number'', PyStr n),
                          (''first_name'', PyStr (strip f)),
                          (''last_name'', PyStr (strip l)),
                          (''account_type'', PyStr ty),
                          (''currency'', PyStr c),
                          (''balance'', PyFloat d)]
            \<and> accounts db' = accounts db @ [\<lparr>a_id = Suc (account_seq db), account_number = n,
                 first_name = strip f, last_name = strip l, account_type = ty, currency = c, balance = d,
                 a_created_at = now\<rparr>]
            \<and> account_seq db' = Suc (account_seq db)
            \<and> transactions db' = transactions db @
                 (if 0 < d then [\<lparr>t_id = Suc (transaction_seq db), account_id = Suc (account_seq db),
                     transaction_type = ''deposit'', amount = d, balance_after = d,
                     description = ''Initial deposit'', t_created_at = now\<rparr>] else [])
            \<and> transaction_seq db' = (if 0 < d then Suc (transaction_seq db) else transaction_seq db))"
proof (cases "generate_account_number db draws")
  case None
  with assms show ?thesis
    by (auto simp: create_account_def split: if_splits)
next
  case (Some n)
  then have n: "n \<notin> account_number ` set (accounts db)" "n \<in> str_nat ` set draws"
    using generate_account_number_Some by blast+
  show ?thesis
    using assms Some n
    by (auto simp: create_account_def insert_account_fresh [OF n(1)] insert_transaction_def Let_def
        split: if_splits)
qed

lemma deposit_cases:
  "(amt \<le> 0 \<and> deposit db now n amt descr = (Inl (ValueError ''Deposit amount must be positive''), db))
   \<or> (0 < amt \<and> get_account db n = None
        \<and> deposit db now n amt descr = (Inl (UnknownAccount n), db))
   \<or> (\<exists>a. 0 < amt \<and> get_account db n = Some a
        \<and> deposit db now n amt descr =
            (Inr [(''account_number'', PyStr n), (''transaction_type'', PyStr ''deposit''),
                  (''amount'', PyFloat amt), (''new_balance'', PyFloat (float_add (balance a) amt))],
             db\<lparr>accounts := map (\<lambda>x. if account_number x = n then x\<lparr>balance := float_add (balance a) amt\<rparr> else x)
                                (accounts db),
                transactions := transactions db @
                  [\<lparr>t_id = Suc (transaction_seq db), account_id = a_id a,
                    transaction_type = ''deposit'', amount = amt, balance_after = float_add (balance a) amt,
                    description = (if descr = [] then ''Deposit'' else descr), t_created_at = now\<rparr>],
                transaction_seq := Suc (transaction_seq db)\<rparr>))"
  by (cases "get_account db n")
     (auto simp: deposit_def UnknownAccount_def update_balance_def insert_transaction_def Let_def)

lemma withdraw_cases:
  "(amt \<le> 0 \<and> withdraw db now n amt descr = (Inl (ValueError ''Withdrawal amount must be positive''), db))
   \<or> (0 < amt \<and> get_account db n = None
        \<and> withdraw db now n amt descr = (Inl (UnknownAccount n), db))
   \<or> (\<exists>a. 0 < amt \<and> get_account db n = Some a \<and> balance a < amt
        \<and> withdraw db now n amt descr = (Inl InsufficientFunds, db))
   \<or> (\<exists>a. 0 < amt \<and> get_account db n = Some a \<and> amt \<le> balance a
        \<and> withdraw db now n amt descr =
            (Inr [(''account_number'', PyStr n), (''transaction_type'', PyStr ''withdrawal''),
                  (''amount'', PyFloat amt), (''new_balance'', PyFloat (float_sub (balance a) amt))],
             db\<lparr>accounts := map (\<lambda>x. if account_number x = n then x\<lparr>balance := float_sub (balance a) amt\<rparr> else x)
                                (accounts db),
                transactions := transactions db @
                  [\<lparr>t_id = Suc (transaction_seq db), account_id = a_id a,
                    transaction_type = ''withdrawal'', amount = amt, balance_after = float_sub (balance a) amt,
                    description = (if descr = [] then ''Withdrawal'' else descr), t_created_at = now\<rparr>],
                transaction_seq := Suc (transaction_seq db)\<rparr>))"
  by (cases "get_account db n")
     (auto simp: withdraw_def UnknownAccount_def InsufficientFunds_def update_balance_def
        insert_transaction_def Let_def)

lemma history_append:
  "transactions db' = transactions db @ txs \<Longrightarrow>
   history db' i = history db i @ filter (\<lambda>t. account_id t = i) txs"
  by (simp add: history_def)

lemma total_append: "total_amount k (xs @ ys) = total_amount k xs + total_amount k ys"
  by (simp add: total_amount_def)

lemma total_single: "total_amount k [t] = (if transaction_type t = k then amount t else 0)"
  by (simp add: total_amount_def)

lemma last_balance_after_snoc: "last_balance_after (xs @ [t]) = balance_after t"
  by (simp add: last_balance_after_def)

lemma map_number_update:
  "map account_number (map (\<lambda>x. if P x then x\<lparr>balance := b\<rparr> else x) xs) = map account_number xs"
  by (induction xs) auto

lemma map_id_update:
  "map a_id (map (\<lambda>x. if P x then x\<lparr>balance := b\<rparr> else x) xs) = map a_id xs"
  by (induction xs) auto

lemma well_formed_number_unique:
  assumes "well_formed db" "x \<in> set (accounts db)" "y \<in> set (accounts db)"
    and "account_number x = account_number y"
  shows "x = y"
proof -
  have "inj_on account_number (set (accounts db))"
    using assms(1) by (simp add: well_formed_def distinct_map)
  then show ?thesis using assms(2-4) by (auto dest: inj_onD)
qed

lemma well_formed_id_unique:
  assumes "well_formed db" "x \<in> set (accounts db)" "y \<in> set (accounts db)"
    and "a_id x = a_id y"
  shows "x = y"
proof -
  have "inj_on a_id (set (accounts db))"
    using assms(1) by (simp add: well_formed_def distinct_map)
  then show ?thesis using assms(2-4) by (auto dest: inj_onD)
qed

lemma history_fresh_id:
  assumes "well_formed db"
  shows "history db (Suc (account_seq db)) = []"
proof -
  have "\<forall>t \<in> set (transactions db). account_id t \<le> account_seq db"
    using assms by (simp add: well_formed_def list_all_iff)
  then have "\<forall>t \<in> set (transactions db). account_id t \<noteq> Suc (account_seq db)"
    by fastforce
  then show ?thesis by (simp add: history_def filter_empty_conv)
qed

text \<open>A posting: what a successful deposit or withdrawal does to the two tables.\<close>

lemma posting_well_formed:
  assumes "well_formed db"
    and "accounts db' = map (\<lambda>x. if account_number x = n then x\<lparr>balance := nb\<rparr> else x) (accounts db)"
    and "transactions db' = transactions db @ [tx]"
    and "account_id tx \<in> a_id ` set (accounts db)"
    and "account_seq db' = account_seq db"
  shows "well_formed db'"
proof -
  have n: "map account_number (accounts db') = map account_number (accounts db)"
    unfolding assms(2) by (rule map_number_update)
  have i: "map a_id (accounts db') = map a_id (accounts db)"
    unfolding assms(2) by (rule map_id_update)
  have ids: "list_all (\<lambda>a. a_id a \<le> s) xs = (\<forall>v \<in> set (map a_id xs). v \<le> s)" for s xs
    by (simp add: list_all_iff)
  have "account_id tx \<le> account_seq db"
    using assms(1,4) by (auto simp: well_formed_def list_all_iff)
  then show ?thesis
    using assms(1) unfolding well_formed_def ids n i assms(3,5) by simp
qed

lemma posting_accounts:
  assumes "well_formed db"
    and "get_account db n = Some a"
    and "accounts db' = map (\<lambda>x. if account_number x = n then x\<lparr>balance := nb\<rparr> else x) (accounts db)"
    and "transactions db' = transactions db @ [tx]"
    and "account_id tx = a_id a"
    and "y \<in> set (accounts db')"
  shows "(balance y = nb \<and> a_id y = a_id a \<and> history db' (a_id a) = history db (a_id a) @ [tx])
       \<or> (y \<in> set (accounts db) \<and> history db' (a_id y) = history db (a_id y))"
proof -
  have a: "a \<in> set (accounts db)" "account_number a = n"
    using assms(2) get_account_Some by blast+
  from assms(3,6) obtain x where x: "x \<in> set (accounts db)"
    and y: "y = (if account_number x = n then x\<lparr>balance := nb\<rparr> else x)"
    by auto
  show ?thesis
  proof (cases "account_number x = n")
    case True
    then have "x = a" using well_formed_number_unique [OF assms(1) x a(1)] a(2) by simp
    then show ?thesis using y True assms(4,5) by (simp add: history_append)
  next
    case False
    then have "x \<noteq> a" using a(2) by auto
    then have "a_id x \<noteq> a_id a" using well_formed_id_unique [OF assms(1) x a(1)] by auto
    then show ?thesis using y False x assms(4,5) by (simp add: history_append)
  qed
qed

lemma replay_snoc: "replay (ts @ [t]) = posting (replay ts) t"
  by (simp add: replay_def)

lemma posting_replayed:
  assumes "well_formed db" and "replayed db"
    and "get_account db n = Some a"
    and "accounts db' = map (\<lambda>x. if account_number x = n then x\<lparr>balance := nb\<rparr> else x) (accounts db)"
    and "transactions db' = transactions db @ [tx]"
    and "account_id tx = a_id a"
    and "nb = posting (balance a) tx"
  shows "replayed db'"
  unfolding replayed_def list_all_iff
proof
  fix y assume "y \<in> set (accounts db')"
  from posting_accounts [OF assms(1,3,4,5,6) this]
  show "balance y = replay (history db' (a_id y))"
  proof
    assume "balance y = nb \<and> a_id y = a_id a \<and> history db' (a_id a) = history db (a_id a) @ [tx]"
    then have y: "balance y = nb" and i: "a_id y = a_id a"
      and hy: "history db' (a_id a) = history db (a_id a) @ [tx]"
      by simp_all
    have "a \<in> set (accounts db)" using assms(3) get_account_Some by blast
    then have "balance a = replay (history db (a_id a))"
      using assms(2) by (simp add: replayed_def list_all_iff)
    then show ?thesis unfolding y i hy replay_snoc assms(7) by simp
  next
    assume h: "y \<in> set (accounts db) \<and> history db' (a_id y) = history db (a_id y)"
    then show ?thesis using assms(2) by (simp add: replayed_def list_all_iff)
  qed
qed

lemma posting_balance_is_last:
  assumes "well_formed db" and "balance_is_last db"
    and "get_account db n = Some a"
    and "accounts db' = map (\<lambda>x. if account_number x = n then x\<lparr>balance := nb\<rparr> else x) (accounts db)"
    and "transactions db' = transactions db @ [tx]"
    and "account_id tx = a_id a"
    and "balance_after tx = nb"
  shows "balance_is_last db'"
  unfolding balance_is_last_def list_all_iff
proof
  fix y assume "y \<in> set (accounts db')"
  from posting_accounts [OF assms(1,3,4,5,6) this]
  show "balance y = last_balance_after (history db' (a_id y))"
  proof
    assume "balance y = nb \<and> a_id y = a_id a \<and> history db' (a_id a) = history db (a_id a) @ [tx]"
    then have y: "balance y = nb" and i: "a_id y = a_id a"
      and hy: "history db' (a_id a) = history db (a_id a) @ [tx]"
      by simp_all
    show ?thesis unfolding y i hy last_balance_after_snoc assms(7) by simp
  next
    assume "y \<in> set (accounts db) \<and> history db' (a_id y) = history db (a_id y)"
    then show ?thesis using assms(2) by (simp add: balance_is_last_def list_all_iff)
  qed
qed

lemma posting_non_negative:
  assumes "non_negative db" and "0 \<le> nb"
    and "accounts db' = map (\<lambda>x. if account_number x = n then x\<lparr>balance := nb\<rparr> else x) (accounts db)"
  shows "non_negative db'"
  using assms by (auto simp: non_negative_def list_all_iff)

text \<open>An opening: what a successful creation does to the two tables.\<close>

lemma opening_well_formed:
  assumes "well_formed db"
    and "accounts db' = accounts db @ [r]"
    and "a_id r = Suc (account_seq db)"
    and "account_number r \<notin> account_number ` set (accounts db)"
    and "transactions db' = transactions db @ txs"
    and "\<forall>t \<in> set txs. account_id t = Suc (account_seq db)"
    and "account_seq db' = Suc (account_seq db)"
  shows "well_formed db'"
proof -
  have "\<forall>a \<in> set (accounts db). a_id a \<le> account_seq db"
    using assms(1) by (simp add: well_formed_def list_all_iff)
  then have "Suc (account_seq db) \<notin> a_id ` set (accounts db)" by fastforce
  then show ?thesis
    using assms by (auto simp: well_formed_def list_all_iff le_Suc_eq)
qed

lemma opening_accounts:
  assumes "well_formed db"
    and "accounts db' = accounts db @ [r]"
    and "a_id r = Suc (account_seq db)"
    and "transactions db' = transactions db @ txs"
    and "\<forall>t \<in> set txs. account_id t = Suc (account_seq db)"
    and "y \<in> set (accounts db')"
  shows "(y = r \<and> history db' (a_id r) = txs)
       \<or> (y \<in> set (accounts db) \<and> history db' (a_id y) = history db (a_id y))"
proof (cases "y = r")
  case True
  have "filter (\<lambda>t. account_id t = Suc (account_seq db)) txs = txs"
    using assms(5) by (simp add: filter_id_conv)
  then show ?thesis
    using True assms(3) history_fresh_id [OF assms(1)] by (simp add: history_append [OF assms(4)])
next
  case False
  then have y: "y \<in> set (accounts db)" using assms(2,6) by simp
  then have "a_id y \<le> account_seq db"
    using assms(1) by (simp add: well_formed_def list_all_iff)
  then have "\<forall>t \<in> set txs. account_id t \<noteq> a_id y" using assms(5) by auto
  then have "filter (\<lambda>t. account_id t = a_id y) txs = []"
    by (simp add: filter_empty_conv)
  then show ?thesis using y by (simp add: history_append [OF assms(4)])
qed

lemma opening_replayed:
  assumes "well_formed db" and "replayed db"
    and "accounts db' = accounts db @ [r]"
    and "a_id r = Suc (account_seq db)"
    and "transactions db' = transactions db @ txs"
    and "\<forall>t \<in> set txs. account_id t = Suc (account_seq db)"
    and "balance r = replay txs"
  shows "replayed db'"
  unfolding replayed_def list_all_iff
proof
  fix y assume "y \<in> set (accounts db')"
  from opening_accounts [OF assms(1,3,4,5,6) this]
  show "balance y = replay (history db' (a_id y))"
  proof
    assume "y = r \<and> history db' (a_id r) = txs"
    then show ?thesis using assms(7) by simp
  next
    assume "y \<in> set (accounts db) \<and> history db' (a_id y) = history db (a_id y)"
    then show ?thesis using assms(2) by (simp add: replayed_def list_all_iff)
  qed
qed

lemma opening_balance_is_last:
  assumes "well_formed db" and "balance_is_last db"
    and "accounts db' = accounts db @ [r]"
    and "a_id r = Suc (account_seq db)"
    and "transactions db' = transactions db @ txs"
    and "\<forall>t \<in> set txs. account_id t = Suc (account_seq db)"
    and "balance r = last_balance_after txs"
  shows "balance_is_last db'"
  unfolding balance_is_last_def list_all_iff
proof
  fix y assume "y \<in> set (accounts db')"
  from opening_accounts [OF assms(1,3,4,5,6) this]
  show "balance y = last_balance_after (history db' (a_id y))"
  proof
    assume "y = r \<and> history db' (a_id r) = txs"
    then show ?thesis using assms(7) by simp
  next
    assume "y \<in> set (accounts db) \<and> history db' (a_id y) = history db (a_id y)"
    then show ?thesis using assms(2) by (simp add: balance_is_last_def list_all_iff)
  qed
qed

text \<open>Each operation keeps the four properties; so does every run.\<close>

lemma create_account_preserves:
  assumes "create_account db now draws f l ty c d = Some (res, db')" and "well_formed db"
  shows "well_formed db'"
    and "replayed db \<Longrightarrow> is_double d \<Longrightarrow> replayed db'"
    and "balance_is_last db \<Longrightarrow> balance_is_last db'"
    and "non_negative db \<Longrightarrow> non_negative db'"
proof -
  from create_account_cases [OF assms(1)]
  consider (failed) "db' = db"
    | (created) n where "n \<notin> account_number ` set (accounts db)" "0 \<le> d"
        "accounts db' = accounts db @ [\<lparr>a_id = Suc (account_seq db), account_number = n,
             first_name = strip f, last_name = strip l, account_type = ty, currency = c, balance = d,
             a_created_at = now\<rparr>]"
        "account_seq db' = Suc (account_seq db)"
        "transactions db' = transactions db @
             (if 0 < d then [\<lparr>t_id = Suc (transaction_seq db), account_id = Suc (account_seq db),
                 transaction_type = ''deposit'', amount = d, balance_after = d,
                 description = ''Initial deposit'', t_created_at = now\<rparr>] else [])"
    by blast
  then have "well_formed db' \<and> (replayed db \<and> is_double d \<longrightarrow> replayed db')
      \<and> (balance_is_last db \<longrightarrow> balance_is_last db') \<and> (non_negative db \<longrightarrow> non_negative db')"
  proof cases
    case failed
    then show ?thesis using assms(2) by simp
  next
    case created
    let ?txs = "if 0 < d then [\<lparr>t_id = Suc (transaction_seq db), account_id = Suc (account_seq db),
                 transaction_type = ''deposit'', amount = d, balance_after = d,
                 description = ''Initial deposit'', t_created_at = now\<rparr>] else []"
    have ids: "\<forall>t \<in> set ?txs. account_id t = Suc (account_seq db)" by simp
    have w: "well_formed db'"
      by (rule opening_well_formed [OF assms(2) created(3) _ _ created(5) ids created(4)])
         (simp_all add: created(1))
    have c: "replayed db'" if "replayed db" and "is_double d"
      by (rule opening_replayed [OF assms(2) that(1) created(3) _ created(5) ids])
         (use created(2) that(2) in \<open>simp_all add: replay_def posting_def float_add_def is_double_def\<close>)
    have b: "balance_is_last db'" if "balance_is_last db"
      by (rule opening_balance_is_last [OF assms(2) that created(3) _ created(5) ids])
         (use created(2) in \<open>simp_all add: last_balance_after_def\<close>)
    have n: "non_negative db'" if "non_negative db"
      using that created(2,3) by (simp add: non_negative_def)
    show ?thesis using w c b n by blast
  qed
  then show "well_formed db'"
    and "replayed db \<Longrightarrow> is_double d \<Longrightarrow> replayed db'"
    and "balance_is_last db \<Longrightarrow> balance_is_last db'"
    and "non_negative db \<Longrightarrow> non_negative db'"
    by blast+
qed

lemma deposit_preserves:
  assumes "well_formed db"
  shows "well_formed (snd (deposit db now n amt descr))"
    and "replayed db \<Longrightarrow> replayed (snd (deposit db now n amt descr))"
    and "balance_is_last db \<Longrightarrow> balance_is_last (snd (deposit db now n amt descr))"
    and "non_negative db \<Longrightarrow> non_negative (snd (deposit db now n amt descr))"
proof -
  let ?db' = "snd (deposit db now n amt descr)"
  from deposit_cases [of amt db now n descr]
  consider (failed) "?db' = db"
    | (posted) a where "0 < amt" "get_account db n = Some a"
        "accounts ?db' = map (\<lambda>x. if account_number x = n then x\<lparr>balance := float_add (balance a) amt\<rparr> else x)
                            (accounts db)"
        "transactions ?db' = transactions db @
                  [\<lparr>t_id = Suc (transaction_seq db), account_id = a_id a,
                    transaction_type = ''deposit'', amount = amt, balance_after = float_add (balance a) amt,
                    description = (if descr = [] then ''Deposit'' else descr), t_created_at = now\<rparr>]"
        "account_seq ?db' = account_seq db"
    by (elim disjE exE conjE) simp_all
  then have "well_formed ?db' \<and> (replayed db \<longrightarrow> replayed ?db')
      \<and> (balance_is_last db \<longrightarrow> balance_is_last ?db') \<and> (non_negative db \<longrightarrow> non_negative ?db')"
  proof cases
    case failed
    then show ?thesis using assms by simp
  next
    case posted
    have a: "a \<in> set (accounts db)" using posted(2) get_account_Some by blast
    have w: "well_formed ?db'"
      by (rule posting_well_formed [OF assms posted(3,4) _ posted(5)]) (simp add: a)
    have c: "replayed ?db'" if "replayed db"
      by (rule posting_replayed [OF assms that posted(2,3,4)]) (simp_all add: posting_def)
    have b: "balance_is_last ?db'" if "balance_is_last db"
      by (rule posting_balance_is_last [OF assms that posted(2,3,4)]) simp_all
    have n: "non_negative ?db'" if "non_negative db"
    proof (rule posting_non_negative [OF that _ posted(3)])
      have "0 \<le> balance a" using that a by (simp add: non_negative_def list_all_iff)
      then show "0 \<le> float_add (balance a) amt"
        using posted(1) by (simp add: float_add_def round_double_nonneg)
    qed
    show ?thesis using w c b n by blast
  qed
  then show "well_formed ?db'"
    and "replayed db \<Longrightarrow> replayed ?db'"
    and "balance_is_last db \<Longrightarrow> balance_is_last ?db'"
    and "non_negative db \<Longrightarrow> non_negative ?db'"
    by blast+
qed

lemma withdraw_preserves:
  assumes "well_formed db"
  shows "well_formed (snd (withdraw db now n amt descr))"
    and "replayed db \<Longrightarrow> replayed (snd (withdraw db now n amt descr))"
    and "balance_is_last db \<Longrightarrow> balance_is_last (snd (withdraw db now n amt descr))"
    and "non_negative db \<Longrightarrow> non_negative (snd (withdraw db now n amt descr))"
proof -
  let ?db' = "snd (withdraw db now n amt descr)"
  from withdraw_cases [of amt db now n descr]
  consider (failed) "?db' = db"
    | (posted) a where "amt \<le> balance a" "get_account db n = Some a"
        "accounts ?db' = map (\<lambda>x. if account_number x = n then x\<lparr>balance := float_sub (balance a) amt\<rparr> else x)
                            (accounts db)"
        "transactions ?db' = transactions db @
                  [\<lparr>t_id = Suc (transaction_seq db), account_id = a_id a,
                    transaction_type = ''withdrawal'', amount = amt, balance_after = float_sub (balance a) amt,
                    description = (if descr = [] then ''Withdrawal'' else descr), t_created_at = now\<rparr>]"
        "account_seq ?db' = account_seq db"
    by (elim disjE exE conjE) simp_all
  then have "well_formed ?db' \<and> (replayed db \<longrightarrow> replayed ?db')
      \<and> (balance_is_last db \<longrightarrow> balance_is_last ?db') \<and> (non_negative db \<longrightarrow> non_negative ?db')"
  proof cases
    case failed
    then show ?thesis using assms by simp
  next
    case posted
    have a: "a \<in> set (accounts db)" using posted(2) get_account_Some by blast
    have w: "well_formed ?db'"
      by (rule posting_well_formed [OF assms posted(3,4) _ posted(5)]) (simp add: a)
    have c: "replayed ?db'" if "replayed db"
      by (rule posting_replayed [OF assms that posted(2,3,4)]) (simp_all add: posting_def)
    have b: "balance_is_last ?db'" if "balance_is_last db"
      by (rule posting_balance_is_last [OF assms that posted(2,3,4)]) simp_all
    have n: "non_negative ?db'" if "non_negative db"
      by (rule posting_non_negative [OF that _ posted(3)])
         (simp add: posted(1) float_sub_def round_double_nonneg)
    show ?thesis using w c b n by blast
  qed
  then show "well_formed ?db'"
    and "replayed db \<Longrightarrow> replayed ?db'"
    and "balance_is_last db \<Longrightarrow> balance_is_last ?db'"
    and "non_negative db \<Longrightarrow> non_negative ?db'"
    by blast+
qed

lemma apply_operation_preserves:
  assumes "apply_operation db x = Some db'" and "well_formed db"
  shows "well_formed db' \<and> (replayed db \<and> is_double (amount_of (snd x)) \<longrightarrow> replayed db')
      \<and> (balance_is_last db \<longrightarrow> balance_is_last db') \<and> (non_negative db \<longrightarrow> non_negative db')"
proof (cases x)
  case (Pair now op)
  show ?thesis
  proof (cases op)
    case (CreateAccount draws f l ty c d)
    with Pair assms(1) obtain res where "create_account db now draws f l ty c d = Some (res, db')"
      by auto
    from create_account_preserves [OF this assms(2)] show ?thesis
      using Pair CreateAccount by simp
  next
    case (Deposit n amt descr)
    with Pair assms(1) have "db' = snd (deposit db now n amt descr)" by simp
    then show ?thesis using deposit_preserves [OF assms(2)] by blast
  next
    case (Withdraw n amt descr)
    with Pair assms(1) have "db' = snd (withdraw db now n amt descr)" by simp
    then show ?thesis using withdraw_preserves [OF assms(2)] by blast
  qed
qed

lemma run_preserves:
  "run db ops = Some db' \<Longrightarrow> well_formed db \<Longrightarrow>
   well_formed db' \<and> (replayed db \<and> double_amounts ops \<longrightarrow> replayed db')
      \<and> (balance_is_last db \<longrightarrow> balance_is_last db') \<and> (non_negative db \<longrightarrow> non_negative db')"
proof (induction ops arbitrary: db)
  case Nil
  then show ?case by simp
next
  case (Cons x ops)
  from Cons.prems(1) obtain db1 where s: "apply_operation db x = Some db1" and r: "run db1 ops = Some db'"
    by (auto split: option.splits)
  have d: "double_amounts (x # ops) = (is_double (amount_of (snd x)) \<and> double_amounts ops)"
    by (simp add: double_amounts_def)
  from apply_operation_preserves [OF s Cons.prems(2)] Cons.IH [OF r]
  show ?case unfolding d by blast
qed

lemma empty_db_ok:
  "well_formed empty_db" "replayed empty_db" "balance_is_last empty_db" "non_negative empty_db"
  by (simp_all add: empty_db_def well_formed_def replayed_def balance_is_last_def non_negative_def)

lemma run_empty_db:
  assumes "run empty_db ops = Some db"
  shows "well_formed db" "double_amounts ops \<Longrightarrow> replayed db" "balance_is_last db" "non_negative db"
  using run_preserves [OF assms empty_db_ok(1)] empty_db_ok by blast+

lemma strip_Nil: "strip [] = []"
  by (simp add: strip_def)

lemma is_valid_currency_iff: "is_valid_currency c \<longleftrightarrow> c = ''USD'' \<or> c = ''BB''"
  unfolding is_valid_currency_def CURRENCIES_def by simp

lemma create_account_success:
  assumes "strip f \<noteq> []" "strip l \<noteq> []" "ty = ''checking'' \<or> ty = ''savings''"
    and "is_valid_currency c" "0 \<le> d"
    and "generate_account_number db draws = Some n"
  shows "create_account db now draws f l ty c d =
     Some (Inr [(''id'', PyInt (int (Suc (account_seq db)))),
                (''account_number'', PyStr n),
                (''first_name'', PyStr (strip f)),
                (''last_name'', PyStr (strip l)),
                (''account_type'', PyStr ty),
                (''currency'', PyStr c),
                (''balance'', PyFloat d)],
           (if 0 < d
            then db\<lparr>accounts := accounts db @ [\<lparr>a_id = Suc (account_seq db), account_number = n,
                      first_name = strip f, last_name = strip l, account_type = ty, currency = c,
                      balance = d, a_created_at = now\<rparr>],
                    account_seq := Suc (account_seq db),
                    transactions := transactions db @
                      [\<lparr>t_id = Suc (transaction_seq db), account_id = Suc (account_seq db),
                        transaction_type = ''deposit'', amount = d, balance_after = d,
                        description = ''Initial deposit'', t_created_at = now\<rparr>],
                    transaction_seq := Suc (transaction_seq db)\<rparr>
            else db\<lparr>accounts := accounts db @ [\<lparr>a_id = Suc (account_seq db), account_number = n,
                      first_name = strip f, last_name = strip l, account_type = ty, currency = c,
                      balance = d, a_created_at = now\<rparr>],
                    account_seq := Suc (account_seq db)\<rparr>))"
proof -
  have n: "n \<notin> account_number ` set (accounts db)"
    using assms(6) generate_account_number_Some by blast
  have f: "f \<noteq> []" "l \<noteq> []" using assms(1,2) strip_Nil by auto
  show ?thesis
    using assms(1-5) f
    by (auto simp: create_account_def assms(6) insert_account_fresh [OF n]
        insert_transaction_def Let_def)
qed

lemma deposit_success:
  assumes "get_account db n = Some a" and "0 < amt"
  shows "deposit db now n amt descr =
            (Inr [(''account_number'', PyStr n), (''transaction_type'', PyStr ''deposit''),
                  (''amount'', PyFloat amt), (''new_balance'', PyFloat (float_add (balance a) amt))],
             db\<lparr>accounts := map (\<lambda>x. if account_number x = n then x\<lparr>balance := float_add (balance a) amt\<rparr> else x)
                                (accounts db),
                transactions := transactions db @
                  [\<lparr>t_id = Suc (transaction_seq db), account_id = a_id a,
                    transaction_type = ''deposit'', amount = amt, balance_after = float_add (balance a) amt,
                    description = (if descr = [] then ''Deposit'' else descr), t_created_at = now\<rparr>],
                transaction_seq := Suc (transaction_seq db)\<rparr>)"
  using deposit_cases [of amt db now n descr] assms by auto

lemma withdraw_success:
  assumes "get_account db n = Some a" and "0 < amt" and "amt \<le> balance a"
  shows "withdraw db now n amt descr =
            (Inr [(''account_number'', PyStr n), (''transaction_type'', PyStr ''withdrawal''),
                  (''amount'', PyFloat amt), (''new_balance'', PyFloat (float_sub (balance a) amt))],
             db\<lparr>accounts := map (\<lambda>x. if account_number x = n then x\<lparr>balance := float_sub (balance a) amt\<rparr> else x)
                                (accounts db),
                transactions := transactions db @
                  [\<lparr>t_id = Suc (transaction_seq db), account_id = a_id a,
                    transaction_type = ''withdrawal'', amount = amt, balance_after = float_sub (balance a) amt,
                    description = (if descr = [] then ''Withdrawal'' else descr), t_created_at = now\<rparr>],
                transaction_seq := Suc (transaction_seq db)\<rparr>)"
  using withdraw_cases [of amt db now n descr] assms by auto


lemma digit_char_eq: "of_char c = 48 + d \<Longrightarrow> digit_char d = c"
  unfolding digit_char_def by (metis char_of_char)

lemma digit_char_simps:
  "digit_char 0 = CHR ''0''" "digit_char 1 = CHR ''1''" "digit_char (Suc 0) = CHR ''1''"
  "digit_char 2 = CHR ''2''" "digit_char 3 = CHR ''3''" "digit_char 4 = CHR ''4''"
  "digit_char 5 = CHR ''5''" "digit_char 6 = CHR ''6''" "digit_char 7 = CHR ''7''"
  "digit_char 8 = CHR ''8''" "digit_char 9 = CHR ''9''"
  by (rule digit_char_eq, simp)+

lemma str_nat_123456: "str_nat 123456 = ''123456''"
  by (simp add: str_nat.simps digit_char_simps)

lemma strip_Alice_Lee: "strip ''Alice'' = ''Alice''" "strip ''Lee'' = ''Lee''"
  by (simp_all add: strip_def is_space_def)

text \<open>Scenario 1, step by step.\<close>

lemma scenario1_create:
  "create_account empty_db t0 [123456] ''Alice'' ''Lee'' ''checking'' ''USD'' 0 =
     Some (Inr [(''id'', PyInt 1), (''account_number'', PyStr ''123456''),
                (''first_name'', PyStr ''Alice''), (''last_name'', PyStr ''Lee''),
                (''account_type'', PyStr ''checking''), (''currency'', PyStr ''USD''),
                (''balance'', PyFloat 0)],
           \<lparr>accounts = [\<lparr>a_id = 1, account_number = ''123456'', first_name = ''Alice'',
                          last_name = ''Lee'', account_type = ''checking'', currency = ''USD'',
                          balance = 0, a_created_at = t0\<rparr>],
            transactions = [], account_seq = 1, transaction_seq = 0\<rparr>)"
proof -
  have g: "generate_account_number empty_db [123456] = Some ''123456''"
    by (simp add: empty_db_def str_nat_123456)
  have "strip ''Alice'' \<noteq> []" "strip ''Lee'' \<noteq> []" "is_valid_currency ''USD''"
    by (simp_all add: strip_Alice_Lee is_valid_currency_iff)
  from create_account_success [OF this(1,2) _ this(3) _ g, of "''checking''" 0 t0]
  show ?thesis by (simp add: strip_Alice_Lee empty_db_def)
qed

lemma scenario1_deposit:
  "deposit \<lparr>accounts = [\<lparr>a_id = 1, account_number = ''123456'', first_name = ''Alice'',
                          last_name = ''Lee'', account_type = ''checking'', currency = ''USD'',
                          balance = 0, a_created_at = t0\<rparr>],
            transactions = [], account_seq = 1, transaction_seq = 0\<rparr> t1 ''123456'' 100 [] =
     (Inr [(''account_number'', PyStr ''123456''), (''transaction_type'', PyStr ''deposit''),
           (''amount'', PyFloat 100), (''new_balance'', PyFloat 100)],
      \<lparr>accounts = [\<lparr>a_id = 1, account_number = ''123456'', first_name = ''Alice'',
                     last_name = ''Lee'', account_type = ''checking'', currency = ''USD'',
                     balance = 100, a_created_at = t0\<rparr>],
       transactions = [\<lparr>t_id = 1, account_id = 1, transaction_type = ''deposit'', amount = 100,
                        balance_after = 100, description = ''Deposit'', t_created_at = t1\<rparr>],
       account_seq = 1, transaction_seq = 1\<rparr>)"
  (is "deposit ?db _ _ _ _ = _")
proof -
  have g: "get_account ?db ''123456'' = Some \<lparr>a_id = 1, account_number = ''123456'', first_name = ''Alice'',
                          last_name = ''Lee'', account_type = ''checking'', currency = ''USD'',
                          balance = 0, a_created_at = t0\<rparr>"
    by (simp add: get_account_def)
  from deposit_success [OF g, of 100 t1 "[]"] show ?thesis by (simp add: float_scenario1)
qed

lemma scenario1_withdraw:
  "withdraw \<lparr>accounts = [\<lparr>a_id = 1, account_number = ''123456'', first_name = ''Alice'',
                     last_name = ''Lee'', account_type = ''checking'', currency = ''USD'',
                     balance = 100, a_created_at = t0\<rparr>],
       transactions = [\<lparr>t_id = 1, account_id = 1, transaction_type = ''deposit'', amount = 100,
                        balance_after = 100, description = ''Deposit'', t_created_at = t1\<rparr>],
       account_seq = 1, transaction_seq = 1\<rparr> t2 ''123456'' 30 [] =
     (Inr [(''account_number'', PyStr ''123456''), (''transaction_type'', PyStr ''withdrawal''),
           (''amount'', PyFloat 30), (''new_balance'', PyFloat 70)],
      scenario1_db t0 t1 t2)"
  (is "withdraw ?db _ _ _ _ = _")
proof -
  have g: "get_account ?db ''123456'' = Some \<lparr>a_id = 1, account_number = ''123456'', first_name = ''Alice'',
                          last_name = ''Lee'', account_type = ''checking'', currency = ''USD'',
                          balance = 100, a_created_at = t0\<rparr>"
    by (simp add: get_account_def)
  from withdraw_success [OF g, of 30 t2 "[]"] show ?thesis
    by (simp add: scenario1_db_def float_scenario1)
qed

lemma run_scenario1: "run empty_db (scenario1 t0 t1 t2) = Some (scenario1_db t0 t1 t2)"
  by (simp only: scenario1_def run.simps apply_operation.simps scenario1_create scenario1_deposit
      scenario1_withdraw option.map option.case snd_conv)



lemma scenario1_row:
  "\<lparr>a_id = 1, account_number = ''123456'', first_name = ''Alice'', last_name = ''Lee'',
    account_type = ''checking'', currency = ''USD'', balance = 70, a_created_at = t0\<rparr>
     \<in> set (accounts (scenario1_db t0 t1 t2))"
  by (simp add: scenario1_db_def)

section \<open>The claims\<close>

subsection \<open>Insufficient funds and non-negative balances\<close>



lemma tenths_deposit:
  "snd (deposit \<lparr>accounts = [\<lparr>a_id = 1, account_number = ''123456'', first_name = ''Alice'',
                          last_name = ''Lee'', account_type = ''checking'', currency = ''USD'',
                          balance = 0, a_created_at = 5\<rparr>],
            transactions = [], account_seq = 1, transaction_seq = 0\<rparr> 6 ''123456''
          (3152519739159347 / 4503599627370496) []) =
      \<lparr>accounts = [\<lparr>a_id = 1, account_number = ''123456'', first_name = ''Alice'',
                     last_name = ''Lee'', account_type = ''checking'', currency = ''USD'',
                     balance = 3152519739159347 / 4503599627370496, a_created_at = 5\<rparr>],
       transactions = [\<lparr>t_id = 1, account_id = 1, transaction_type = ''deposit'',
                        amount = 3152519739159347 / 4503599627370496,
                        balance_after = 3152519739159347 / 4503599627370496,
                        description = ''Deposit'', t_created_at = 6\<rparr>],
       account_seq = 1, transaction_seq = 1\<rparr>"
  (is "snd (deposit ?db _ _ _ _) = _")
proof -
  have g: "get_account ?db ''123456'' = Some \<lparr>a_id = 1, account_number = ''123456'', first_name = ''Alice'',
                          last_name = ''Lee'', account_type = ''checking'', currency = ''USD'',
                          balance = 0, a_created_at = 5\<rparr>"
    by (simp add: get_account_def)
  from deposit_success [OF g, of "3152519739159347 / 4503599627370496" 6 "[]"]
  show ?thesis by (simp add: float_add_tenths)
qed

lemma tenths_withdraw:
  "snd (withdraw \<lparr>accounts = [\<lparr>a_id = 1, account_number = ''123456'', first_name = ''Alice'',
                     last_name = ''Lee'', account_type = ''checking'', currency = ''USD'',
                     balance = 3152519739159347 / 4503599627370496, a_created_at = 5\<rparr>],
       transactions = [\<lparr>t_id = 1, account_id = 1, transaction_type = ''deposit'',
                        amount = 3152519739159347 / 4503599627370496,
                        balance_after = 3152519739159347 / 4503599627370496,
                        description = ''Deposit'', t_created_at = 6\<rparr>],
       account_seq = 1, transaction_seq = 1\<rparr> 7 ''123456''
          (3602879701896397 / 36028797018963968) []) =
      \<lparr>accounts = [\<lparr>a_id = 1, account_number = ''123456'', first_name = ''Alice'',
                     last_name = ''Lee'', account_type = ''checking'', currency = ''USD'',
                     balance = 5404319552844595 / 9007199254740992, a_created_at = 5\<rparr>],
       transactions = [\<lparr>t_id = 1, account_id = 1, transaction_type = ''deposit'',
                        amount = 3152519739159347 / 4503599627370496,
                        balance_after = 3152519739159347 / 4503599627370496,
                        description = ''Deposit'', t_created_at = 6\<rparr>,
                       \<lparr>t_id = 2, account_id = 1, transaction_type = ''withdrawal'',
                        amount = 3602879701896397 / 36028797018963968,
                        balance_after = 5404319552844595 / 9007199254740992,
                        description = ''Withdrawal'', t_created_at = 7\<rparr>],
       account_seq = 1, transaction_seq = 2\<rparr>"
  (is "snd (withdraw ?db _ _ _ _) = _")
proof -
  have g: "get_account ?db ''123456'' = Some \<lparr>a_id = 1, account_number = ''123456'', first_name = ''Alice'',
                     last_name = ''Lee'', account_type = ''checking'', currency = ''USD'',
                     balance = 3152519739159347 / 4503599627370496, a_created_at = 5\<rparr>"
    by (simp add: get_account_def)
  from withdraw_success [OF g, of "3602879701896397 / 36028797018963968" 7 "[]"]
  show ?thesis by (simp add: float_sub_tenths)
qed

lemma tenths_withdraw_again:
  "snd (withdraw \<lparr>accounts = [\<lparr>a_id = 1, account_number = ''123456'', first_name = ''Alice'',
                     last_name = ''Lee'', account_type = ''checking'', currency = ''USD'',
                     balance = 5404319552844595 / 9007199254740992, a_created_at = 5\<rparr>],
       transactions = [\<lparr>t_id = 1, account_id = 1, transaction_type = ''deposit'',
                        amount = 3152519739159347 / 4503599627370496,
                        balance_after = 3152519739159347 / 4503599627370496,
                        description = ''Deposit'', t_created_at = 6\<rparr>,
                       \<lparr>t_id = 2, account_id = 1, transaction_type = ''withdrawal'',
                        amount = 3602879701896397 / 36028797018963968,
                        balance_after = 5404319552844595 / 9007199254740992,
                        description = ''Withdrawal'', t_created_at = 7\<rparr>],
       account_seq = 1, transaction_seq = 2\<rparr> 8 ''123456''
          (3602879701896397 / 36028797018963968) []) = scenario_tenths_db"
  (is "snd (withdraw ?db _ _ _ _) = _")
proof -
  have g: "get_account ?db ''123456'' = Some \<lparr>a_id = 1, account_number = ''123456'', first_name = ''Alice'',
                     last_name = ''Lee'', account_type = ''checking'', currency = ''USD'',
                     balance = 5404319552844595 / 9007199254740992, a_created_at = 5\<rparr>"
    by (simp add: get_account_def)
  from withdraw_success [OF g, of "3602879701896397 / 36028797018963968" 8 "[]"]
  show ?thesis by (simp add: float_sub_tenths_tie scenario_tenths_db_def)
qed

lemma run_scenario_tenths: "run empty_db scenario_tenths = Some scenario_tenths_db"
  by (simp only: scenario_tenths_def round_double_7_10 round_double_1_10 run.simps
      apply_operation.simps scenario1_create tenths_deposit tenths_withdraw tenths_withdraw_again
      option.map option.case snd_conv)

lemma exact_sums_snoc:
  "exact_sums (ts @ [t]) = (exact_sums ts \<and> is_double (net (ts @ [t])))"
proof -
  have "[1 ..< Suc (length (ts @ [t]))] = [1 ..< Suc (length ts)] @ [Suc (length ts)]"
    by simp
  moreover have "list_all (\<lambda>k. is_double (net (take k (ts @ [t])))) [1 ..< Suc (length ts)]
      = list_all (\<lambda>k. is_double (net (take k ts))) [1 ..< Suc (length ts)]"
    unfolding list_all_iff
  proof (rule ball_cong [OF refl])
    fix k assume "k \<in> set [1 ..< Suc (length ts)]"
    then have "k \<le> length ts" by auto
    then show "is_double (net (take k (ts @ [t]))) = is_double (net (take k ts))" by simp
  qed
  ultimately show ?thesis by (simp add: exact_sums_def)
qed

lemma net_snoc:
  "net (ts @ [t]) =
     (if transaction_type t = ''deposit'' then net ts + amount t
      else if transaction_type t = ''withdrawal'' then net ts - amount t
      else net ts)"
  by (simp add: net_def total_amount_def)

lemma replay_exact: "exact_sums ts \<Longrightarrow> replay ts = net ts"
proof (induction ts rule: rev_induct)
  case Nil
  then show ?case by (simp add: replay_def net_def total_amount_def)
next
  case (snoc t ts)
  from snoc.prems have e: "exact_sums ts" and d: "round_double (net (ts @ [t])) = net (ts @ [t])"
    by (simp_all add: exact_sums_snoc is_double_def)
  have r: "replay ts = net ts" using snoc.IH [OF e] .
  show ?case
    using d unfolding replay_snoc r
    by (auto simp: posting_def net_snoc float_add_def float_sub_def split: if_splits)
qed

subsection \<open>Conservation\<close>

text \<open>
  C2, as stated: after any run of \<^verbatim>\<open>create_account\<close>, \<^verbatim>\<open>deposit\<close> and \<^verbatim>\<open>withdraw\<close> calls the
  stored balance of every account is the sum of the amounts of its deposit transactions
  less the sum of the amounts of its withdrawal transactions. The balances are floats, and
  each \<^verbatim>\<open>deposit\<close> and \<^verbatim>\<open>withdraw\<close> rounds. After a deposit of 0.7 and two withdrawals of 0.1
  the stored balance is 0.5, and the deposits less the withdrawals are
  0.49999999999999994 (the double below 0.5).
\<close>

theorem conservation_counterexample:
  "run empty_db scenario_tenths = Some scenario_tenths_db
   \<and> map balance (accounts scenario_tenths_db) = [1 / 2]
   \<and> total_amount ''deposit'' (history scenario_tenths_db 1)
       - total_amount ''withdrawal'' (history scenario_tenths_db 1)
     = 9007199254740991 / 18014398509481984
   \<and> \<not> conserved scenario_tenths_db"
proof -
  have t: "total_amount ''deposit'' (history scenario_tenths_db 1)
       - total_amount ''withdrawal'' (history scenario_tenths_db 1)
     = 9007199254740991 / 18014398509481984"
    by (simp add: total_amount_def history_def scenario_tenths_db_def)
  have b: "map balance (accounts scenario_tenths_db) = [1 / 2]"
    by (simp add: scenario_tenths_db_def)
  have "\<not> conserved scenario_tenths_db"
    by (simp add: conserved_def scenario_tenths_db_def history_def total_amount_def)
  then show ?thesis using run_scenario_tenths t b by simp
qed

text \<open>
  C2, amended. In a run from the empty store in which every amount passed is a double,
  the stored balance of every account is what its transactions give when they are applied
  in the order recorded to a balance of zero, each deposit added and each withdrawal
  subtracted with the rounding of floats. It is the sum of the deposits less the sum of
  the withdrawals whenever that difference is a double after each transaction, so that no
  step rounds.
\<close>

theorem rounded_conservation:
  assumes "run empty_db ops = Some db" and "double_amounts ops" and "a \<in> set (accounts db)"
  shows "balance a = replay (history db (a_id a))
       \<and> (exact_sums (history db (a_id a)) \<longrightarrow>
            balance a = total_amount ''deposit'' (history db (a_id a))
                        - total_amount ''withdrawal'' (history db (a_id a)))"
proof -
  have r: "balance a = replay (history db (a_id a))"
    using run_empty_db(2) [OF assms(1,2)] assms(3) by (simp add: replayed_def list_all_iff)
  have "balance a = total_amount ''deposit'' (history db (a_id a))
                        - total_amount ''withdrawal'' (history db (a_id a))"
    if "exact_sums (history db (a_id a))"
    using replay_exact [OF that] r by (simp add: net_def)
  then show ?thesis using r by simp
qed

theorem rounded_conservation_witness:
  "run empty_db (scenario1 5 6 7) = Some (scenario1_db 5 6 7)
   \<and> double_amounts (scenario1 5 6 7)
   \<and> exact_sums (history (scenario1_db 5 6 7) 1)
   \<and> replay (history (scenario1_db 5 6 7) 1) = 70
   \<and> total_amount ''deposit'' (history (scenario1_db 5 6 7) 1) = 100
   \<and> total_amount ''withdrawal'' (history (scenario1_db 5 6 7) 1) = 30
   \<and> run empty_db scenario_tenths = Some scenario_tenths_db
   \<and> double_amounts scenario_tenths
   \<and> replay (history scenario_tenths_db 1) = 1 / 2"
proof -
  have d: "total_amount ''deposit'' (history (scenario1_db 5 6 7) 1) = 100"
    and w: "total_amount ''withdrawal'' (history (scenario1_db 5 6 7) 1) = 30"
    by (simp_all add: total_amount_def history_def scenario1_db_def)
  have m: "double_amounts (scenario1 5 6 7)"
    by (simp add: double_amounts_def scenario1_def is_double_scenario1)
  have e: "exact_sums (history (scenario1_db 5 6 7) 1)"
    by (simp add: exact_sums_def history_def scenario1_db_def net_def total_amount_def
        is_double_scenario1 upt_conv_Cons)
  have mt: "double_amounts scenario_tenths"
    by (simp add: double_amounts_def scenario_tenths_def is_double_scenario1 is_double_tenths)
  have rt: "\<lparr>a_id = 1, account_number = ''123456'', first_name = ''Alice'',
                   last_name = ''Lee'', account_type = ''checking'', currency = ''USD'',
                   balance = 1 / 2, a_created_at = 5\<rparr> \<in> set (accounts scenario_tenths_db)"
    by (simp add: scenario_tenths_db_def)
  from rounded_conservation [OF run_scenario1 m scenario1_row]
    rounded_conservation [OF run_scenario_tenths mt rt]
  show ?thesis using d w m e mt run_scenario1 run_scenario_tenths by simp
qed

subsection \<open>The balance and the last transaction\<close>

text \<open>
  C3. After any run of operations from the empty store, the balance of every account is
  the \<^verbatim>\<open>balance_after\<close> of the transaction recorded last for it, or zero when it has none.
\<close>

theorem balance_equals_last_balance_after:
  assumes "run empty_db ops = Some db" and "a \<in> set (accounts db)"
  shows "balance a = (if history db (a_id a) = [] then 0
                      else balance_after (last (history db (a_id a))))"
  using run_empty_db(3) [OF assms(1)] assms(2)
  by (simp add: balance_is_last_def list_all_iff last_balance_after_def)

theorem balance_equals_last_balance_after_witness:
  "run empty_db (scenario1 5 6 7) = Some (scenario1_db 5 6 7)
   \<and> map transaction_type (history (scenario1_db 5 6 7) 1) = [''deposit'', ''withdrawal'']
   \<and> balance_after (last (history (scenario1_db 5 6 7) 1)) = 70"
proof -
  have h: "map transaction_type (history (scenario1_db 5 6 7) 1) = [''deposit'', ''withdrawal'']"
    by (simp add: history_def scenario1_db_def)
  then have "history (scenario1_db 5 6 7) 1 \<noteq> []" by auto
  with balance_equals_last_balance_after [OF run_scenario1 scenario1_row, of 5 6 7]
  show ?thesis using h run_scenario1 by simp
qed

lemma get_currency_isl: "isl (get_currency c) \<longleftrightarrow> \<not> is_valid_currency c"
  unfolding get_currency_def is_valid_currency_iff CURRENCIES_def by simp

lemma InvalidArgument_messages:
  "InvalidArgument (ValueError ''First name is required'')"
  "InvalidArgument (ValueError ''Last name is required'')"
  "InvalidArgument (ValueError account_type_message)"
  "InvalidArgument (ValueError (''Invalid currency: '' @ c))"
  "InvalidArgument (ValueError ''Initial deposit cannot be negative'')"
  by simp_all

subsection \<open>Validation in \<^verbatim>\<open>create_account\<close>\<close>

text \<open>
  C5. \<^verbatim>\<open>create_account\<close> fails with an \<open>InvalidArgument\<close> error whenever the first or the last
  name is empty after trimming, the category is neither \<^verbatim>\<open>checking\<close> nor \<^verbatim>\<open>savings\<close>, the
  currency code does not resolve in the registry, or the initial deposit is negative; the
  call returns (it draws no number), and the store after it is the store before it: no
  account row and no transaction is written.
\<close>

theorem create_account_rejects_invalid:
  assumes "strip f = [] \<or> strip l = [] \<or> (ty \<noteq> ''checking'' \<and> ty \<noteq> ''savings'')
           \<or> isl (get_currency c) \<or> d < 0"
  shows "case create_account db now draws f l ty c d of
           None \<Rightarrow> False
         | Some (res, db') \<Rightarrow>
             db' = db \<and> (case res of Inl e \<Rightarrow> InvalidArgument e | Inr acct \<Rightarrow> False)"
proof -
  let ?r = "create_account db now draws f l ty c d"
  consider (fname) "f = [] \<or> strip f = []"
    | (lname) "\<not> (f = [] \<or> strip f = [])" "l = [] \<or> strip l = []"
    | (atype) "\<not> (f = [] \<or> strip f = [])" "\<not> (l = [] \<or> strip l = [])"
        "ty \<notin> set [''checking'', ''savings'']"
    | (cur) "\<not> (f = [] \<or> strip f = [])" "\<not> (l = [] \<or> strip l = [])"
        "\<not> ty \<notin> set [''checking'', ''savings'']" "\<not> is_valid_currency c"
    | (dep) "\<not> (f = [] \<or> strip f = [])" "\<not> (l = [] \<or> strip l = [])"
        "\<not> ty \<notin> set [''checking'', ''savings'']" "\<not> \<not> is_valid_currency c" "d < 0"
    using assms unfolding get_currency_isl by (cases "ty \<in> set [''checking'', ''savings'']") auto
  then show ?thesis
  proof cases
    case fname
    then have "?r = Some (Inl (ValueError ''First name is required''), db)"
      by (simp add: create_account_def)
    then show ?thesis by (simp add: InvalidArgument_messages del: InvalidArgument.simps)
  next
    case lname
    then have "?r = Some (Inl (ValueError ''Last name is required''), db)"
      by (simp add: create_account_def)
    then show ?thesis by (simp add: InvalidArgument_messages del: InvalidArgument.simps)
  next
    case atype
    then have "?r = Some (Inl (ValueError account_type_message), db)"
      by (simp add: create_account_def)
    then show ?thesis by (simp add: InvalidArgument_messages del: InvalidArgument.simps)
  next
    case cur
    then have "?r = Some (Inl (ValueError (''Invalid currency: '' @ c)), db)"
      by (simp add: create_account_def)
    then show ?thesis
      by (simp only: option.case prod.case sum.case InvalidArgument_messages simp_thms)
  next
    case dep
    then have "?r = Some (Inl (ValueError ''Initial deposit cannot be negative''), db)"
      by (simp add: create_account_def)
    then show ?thesis by (simp add: InvalidArgument_messages del: InvalidArgument.simps)
  qed
qed

theorem create_account_rejects_invalid_witness:
  "isl (get_currency ''ZZZ'')
   \<and> create_account empty_db 5 [123456] ''Alice'' ''Lee'' ''checking'' ''ZZZ'' 0
       = Some (Inl (ValueError ''Invalid currency: ZZZ''), empty_db)
   \<and> InvalidArgument (ValueError ''Invalid currency: ZZZ'')"
proof -
  have z: "isl (get_currency ''ZZZ'')"
    unfolding get_currency_isl is_valid_currency_iff by simp
  have r: "create_account empty_db 5 [123456] ''Alice'' ''Lee'' ''checking'' ''ZZZ'' 0
       = Some (Inl (ValueError ''Invalid currency: ZZZ''), empty_db)"
    unfolding create_account_def strip_Alice_Lee is_valid_currency_iff by simp
  from create_account_rejects_invalid [of "''Alice''" "''Lee''" "''checking''" "''ZZZ''" 0 empty_db 5 "[123456]"] z
  have "InvalidArgument (ValueError ''Invalid currency: ZZZ'')"
    unfolding r by simp
  then show ?thesis using z r by simp
qed

lemma scenario1_create_savings:
  "create_account empty_db t0 [123456] ''Alice'' ''Lee'' ''savings'' ''BB'' 50 =
     Some (Inr [(''id'', PyInt 1), (''account_number'', PyStr ''123456''),
                (''first_name'', PyStr ''Alice''), (''last_name'', PyStr ''Lee''),
                (''account_type'', PyStr ''savings''), (''currency'', PyStr ''BB''),
                (''balance'', PyFloat 50)],
           \<lparr>accounts = [\<lparr>a_id = 1, account_number = ''123456'', first_name = ''Alice'',
                          last_name = ''Lee'', account_type = ''savings'', currency = ''BB'',
                          balance = 50, a_created_at = t0\<rparr>],
            transactions = [\<lparr>t_id = 1, account_id = 1, transaction_type = ''deposit'',
                             amount = 50, balance_after = 50, description = ''Initial deposit'',
                             t_created_at = t0\<rparr>],
            account_seq = 1, transaction_seq = 1\<rparr>)"
proof -
  have g: "generate_account_number empty_db [123456] = Some ''123456''"
    by (simp add: empty_db_def str_nat_123456)
  have "strip ''Alice'' \<noteq> []" "strip ''Lee'' \<noteq> []" "is_valid_currency ''BB''"
    by (simp_all add: strip_Alice_Lee is_valid_currency_iff)
  from create_account_success [OF this(1,2) _ this(3) _ g, of "''savings''" 50 t0]
  show ?thesis by (simp add: strip_Alice_Lee empty_db_def)
qed

subsection \<open>The initial deposit\<close>



lemma find_append_fresh:
  "\<forall>x \<in> set xs. \<not> P x \<Longrightarrow> P y \<Longrightarrow> find P (xs @ [y]) = Some y"
  by (induction xs) auto

subsection \<open>What \<^verbatim>\<open>create_account\<close> returns\<close>

text \<open>
  C8, as stated: \<^verbatim>\<open>create_account\<close> returns the full snapshot of the account, with the
  identifier assigned and the creation timestamp. The dictionary returned has no key
  \<^verbatim>\<open>created_at\<close>: the timestamp is in the row that was stored, not in the result.
\<close>

theorem create_account_snapshot_counterexample:
  "create_account empty_db 5 [123456] ''Alice'' ''Lee'' ''checking'' ''USD'' 0 =
     Some (Inr [(''id'', PyInt 1), (''account_number'', PyStr ''123456''),
                (''first_name'', PyStr ''Alice''), (''last_name'', PyStr ''Lee''),
                (''account_type'', PyStr ''checking''), (''currency'', PyStr ''USD''),
                (''balance'', PyFloat 0)],
           \<lparr>accounts = [\<lparr>a_id = 1, account_number = ''123456'', first_name = ''Alice'',
                          last_name = ''Lee'', account_type = ''checking'', currency = ''USD'',
                          balance = 0, a_created_at = 5\<rparr>],
            transactions = [], account_seq = 1, transaction_seq = 0\<rparr>)
   \<and> map_of [(''id'', PyInt 1), (''account_number'', PyStr ''123456''),
              (''first_name'', PyStr ''Alice''), (''last_name'', PyStr ''Lee''),
              (''account_type'', PyStr ''checking''), (''currency'', PyStr ''USD''),
              (''balance'', PyFloat 0)] ''created_at'' = None"
  using scenario1_create [of 5] by simp

text \<open>
  C8, amended. On success \<^verbatim>\<open>create_account\<close> returns a dictionary with exactly the keys
  \<^verbatim>\<open>id\<close>, \<^verbatim>\<open>account_number\<close>, \<^verbatim>\<open>first_name\<close>, \<^verbatim>\<open>last_name\<close>, \<^verbatim>\<open>account_type\<close>, \<^verbatim>\<open>currency\<close> and
  \<^verbatim>\<open>balance\<close>, holding the key and the identifier assigned, the trimmed names, the category,
  the currency and the initial deposit, as in the row stored. The creation timestamp is
  not part of it; it is in the stored row, which \<^verbatim>\<open>get_account\<close> returns for the identifier.
\<close>

theorem create_account_snapshot:
  assumes "create_account db now draws f l ty c d = Some (Inr acct, db')"
  shows "map fst acct = [''id'', ''account_number'', ''first_name'', ''last_name'',
                         ''account_type'', ''currency'', ''balance'']
       \<and> map snd acct = [PyInt (int (a_id (last (accounts db')))),
                          PyStr (account_number (last (accounts db'))),
                          PyStr (first_name (last (accounts db'))),
                          PyStr (last_name (last (accounts db'))),
                          PyStr (account_type (last (accounts db'))),
                          PyStr (currency (last (accounts db'))),
                          PyFloat (balance (last (accounts db')))]
       \<and> map_of acct ''created_at'' = None
       \<and> last (accounts db') = \<lparr>a_id = Suc (account_seq db),
             account_number = account_number (last (accounts db')),
             first_name = strip f, last_name = strip l, account_type = ty, currency = c,
             balance = d, a_created_at = now\<rparr>
       \<and> get_account db' (account_number (last (accounts db'))) = Some (last (accounts db'))"
proof -
  from create_account_cases [OF assms] obtain n where
    n: "n \<notin> account_number ` set (accounts db)"
    and acct: "acct = [(''id'', PyInt (int (Suc (account_seq db)))),
                          (''account_number'', PyStr n),
                          (''first_name'', PyStr (strip f)),
                          (''last_name'', PyStr (strip l)),
                          (''account_type'', PyStr ty),
                          (''currency'', PyStr c),
                          (''balance'', PyFloat d)]"
    and rows: "accounts db' = accounts db @ [\<lparr>a_id = Suc (account_seq db), account_number = n,
                 first_name = strip f, last_name = strip l, account_type = ty, currency = c, balance = d,
                 a_created_at = now\<rparr>]"
    by auto
  have l: "last (accounts db') = \<lparr>a_id = Suc (account_seq db), account_number = n,
                 first_name = strip f, last_name = strip l, account_type = ty, currency = c, balance = d,
                 a_created_at = now\<rparr>"
    unfolding rows by simp
  have g: "get_account db' n = Some (last (accounts db'))"
    unfolding get_account_def l unfolding rows
    by (rule find_append_fresh) (use n in auto)
  have k: "map_of acct ''created_at'' = None"
    unfolding acct by simp
  show ?thesis
    using g k unfolding l unfolding acct by simp
qed

theorem create_account_snapshot_witness:
  "create_account empty_db 5 [123456] ''Alice'' ''Lee'' ''savings'' ''BB'' 50 =
     Some (Inr [(''id'', PyInt 1), (''account_number'', PyStr ''123456''),
                (''first_name'', PyStr ''Alice''), (''last_name'', PyStr ''Lee''),
                (''account_type'', PyStr ''savings''), (''currency'', PyStr ''BB''),
                (''balance'', PyFloat 50)],
           \<lparr>accounts = [\<lparr>a_id = 1, account_number = ''123456'', first_name = ''Alice'',
                          last_name = ''Lee'', account_type = ''savings'', currency = ''BB'',
                          balance = 50, a_created_at = 5\<rparr>],
            transactions = [\<lparr>t_id = 1, account_id = 1, transaction_type = ''deposit'',
                             amount = 50, balance_after = 50, description = ''Initial deposit'',
                             t_created_at = 5\<rparr>],
            account_seq = 1, transaction_seq = 1\<rparr>)
   \<and> map_option a_created_at
        (get_account \<lparr>accounts = [\<lparr>a_id = 1, account_number = ''123456'', first_name = ''Alice'',
                          last_name = ''Lee'', account_type = ''savings'', currency = ''BB'',
                          balance = 50, a_created_at = 5\<rparr>],
            transactions = [\<lparr>t_id = 1, account_id = 1, transaction_type = ''deposit'',
                             amount = 50, balance_after = 50, description = ''Initial deposit'',
                             t_created_at = 5\<rparr>],
            account_seq = 1, transaction_seq = 1\<rparr> ''123456'') = Some 5"
  using create_account_snapshot [OF scenario1_create_savings [of 5]] scenario1_create_savings [of 5]
  by simp

lemma str_nat_654321: "str_nat 654321 = ''654321''"
  by (simp add: str_nat.simps digit_char_simps)

lemma strip_Bob_Ray: "strip ''Bob'' = ''Bob''" "strip ''Ray'' = ''Ray''"
  by (simp_all add: strip_def is_space_def)

lemma scenario1_numbers: "account_number ` set (accounts (scenario1_db t0 t1 t2)) = {''123456''}"
  by (simp add: scenario1_db_def)

lemma create_account_between_Nil:
  "create_account_between db now draws f l ty c d [] = create_account db now draws f l ty c d"
  by (cases "generate_account_number db draws")
     (simp_all add: create_account_between_def create_account_def)

lemma create_account_between_cases:
  assumes "create_account_between db now draws f l ty c d others = Some (res, db')"
  shows "db' = db
       \<or> (\<exists>db0. run db others = Some db0
            \<and> (db' = db0
                \<or> (\<exists>r. account_number r \<notin> account_number ` set (accounts db0)
                      \<and> accounts db' = accounts db0 @ [r])))"
proof (cases "f = [] \<or> strip f = [] \<or> l = [] \<or> strip l = [] \<or> ty \<notin> set [''checking'', ''savings'']
              \<or> \<not> is_valid_currency c \<or> d < 0")
  case True
  with assms have "db' = db"
    by (auto simp: create_account_between_def split: if_splits)
  then show ?thesis by simp
next
  case False
  with assms obtain n db0 where n: "generate_account_number db draws = Some n"
    and r: "run db others = Some db0"
    by (auto simp: create_account_between_def split: option.splits)
  show ?thesis
  proof (cases "n \<in> account_number ` set (accounts db0)")
    case True
    then have "insert_account db0 now n (strip f) (strip l) ty c d = Inl IntegrityError"
      by (auto simp: insert_account_def)
    with assms False n r have "db' = db0"
      by (auto simp: create_account_between_def)
    then show ?thesis using r by simp
  next
    case fresh: False
    from assms False n r
    have "accounts db' = accounts db0 @ [\<lparr>a_id = Suc (account_seq db0), account_number = n,
                 first_name = strip f, last_name = strip l, account_type = ty, currency = c,
                 balance = d, a_created_at = now\<rparr>]"
      by (auto simp: create_account_between_def insert_account_fresh [OF fresh]
          insert_transaction_def Let_def split: if_splits)
    then show ?thesis using r fresh by auto
  qed
qed

lemma create_account_between_taken:
  assumes "strip f \<noteq> []" "strip l \<noteq> []" "ty = ''checking'' \<or> ty = ''savings''"
    and "is_valid_currency c" "0 \<le> d"
    and "generate_account_number db draws = Some n"
    and "run db others = Some db0"
    and "n \<in> account_number ` set (accounts db0)"
  shows "create_account_between db now draws f l ty c d others = Some (Inl DuplicateIdentifier, db0)"
proof -
  have i: "insert_account db0 now n (strip f) (strip l) ty c d = Inl IntegrityError"
    using assms(8) by (auto simp: insert_account_def)
  have f: "f \<noteq> []" "l \<noteq> []" using assms(1,2) strip_Nil by auto
  show ?thesis
    using assms(1-5) f
    by (auto simp: create_account_between_def assms(6,7) i DuplicateIdentifier_def)
qed

lemma scenario1_create_run:
  "run empty_db [(5, CreateAccount [123456] ''Alice'' ''Lee'' ''checking'' ''USD'' 0)] =
     Some \<lparr>accounts = [\<lparr>a_id = 1, account_number = ''123456'', first_name = ''Alice'',
                          last_name = ''Lee'', account_type = ''checking'', currency = ''USD'',
                          balance = 0, a_created_at = 5\<rparr>],
            transactions = [], account_seq = 1, transaction_seq = 0\<rparr>"
  by (simp only: run.simps apply_operation.simps scenario1_create option.map option.case snd_conv)

lemma generate_first_draw:
  "generate_account_number empty_db [123456, 654321] = Some ''123456''"
  by (simp add: empty_db_def str_nat_123456)

subsection \<open>Collisions of identifiers\<close>

text \<open>
  C4, as stated: a collision that the store signals at insert time (\<open>DuplicateIdentifier\<close>)
  is retried inside \<^verbatim>\<open>create_account\<close> with a new candidate, and \<^verbatim>\<open>create_account\<close> never
  fails with \<open>DuplicateIdentifier\<close>. The code looks the candidate up before the insert and
  has no handler around the insert. When another connection takes the number 123456
  after the look-up of this call has found it free, the insert of this call is refused,
  the error reaches the caller, and the second draw 654321 is never tried.
\<close>

theorem create_account_collisions_counterexample:
  "generate_account_number empty_db [123456, 654321] = Some ''123456''
   \<and> create_account_between empty_db 6 [123456, 654321] ''Bob'' ''Ray'' ''savings'' ''BB'' 0
        [(5, CreateAccount [123456] ''Alice'' ''Lee'' ''checking'' ''USD'' 0)]
      = Some (Inl DuplicateIdentifier,
              \<lparr>accounts = [\<lparr>a_id = 1, account_number = ''123456'', first_name = ''Alice'',
                             last_name = ''Lee'', account_type = ''checking'', currency = ''USD'',
                             balance = 0, a_created_at = 5\<rparr>],
               transactions = [], account_seq = 1, transaction_seq = 0\<rparr>)"
proof -
  have v: "strip ''Bob'' \<noteq> []" "strip ''Ray'' \<noteq> []" "is_valid_currency ''BB''"
    by (simp_all add: strip_Bob_Ray is_valid_currency_iff)
  show ?thesis
    using create_account_between_taken [OF v(1,2) _ v(3) _ generate_first_draw scenario1_create_run,
        of "''savings''" 0 6]
      generate_first_draw
    by simp
qed

text \<open>
  C4, amended. A candidate identifier that an account already has is found by the look-up
  of \<^verbatim>\<open>generate_account_number\<close> and replaced by the next draw, so that with valid arguments
  the call succeeds with the first draw that no account has, whatever collided before it.
  When no other connection writes in between, the insert that follows does not collide
  and \<^verbatim>\<open>create_account\<close> never fails with \<open>DuplicateIdentifier\<close>. The store refuses an insert
  with \<open>DuplicateIdentifier\<close> exactly when an account has the identifier already; when that
  happens at the insert of \<^verbatim>\<open>create_account\<close>, because another connection took the number
  after the look-up, the call is not retried: it fails with \<open>DuplicateIdentifier\<close> and
  writes nothing. Either way no two accounts have the same identifier.
\<close>

theorem create_account_collisions:
  "(strip f \<noteq> [] \<and> strip l \<noteq> [] \<and> (ty = ''checking'' \<or> ty = ''savings'')
      \<and> is_valid_currency c \<and> 0 \<le> d
      \<and> list_all (\<lambda>r. str_nat r \<in> account_number ` set (accounts db)) taken
      \<and> str_nat r0 \<notin> account_number ` set (accounts db)
    \<longrightarrow> (case create_account db now (taken @ r0 # rest) f l ty c d of
           Some (Inr acct, db') \<Rightarrow>
             map_of acct ''account_number'' = Some (PyStr (str_nat r0))
             \<and> account_number (last (accounts db')) = str_nat r0
         | _ \<Rightarrow> False))
   \<and> (create_account db now draws f l ty c d = Some (res, db1)
        \<longrightarrow> res \<noteq> Inl DuplicateIdentifier)
   \<and> (insert_account db now n f l ty c d = Inl DuplicateIdentifier
        \<longleftrightarrow> n \<in> account_number ` set (accounts db))
   \<and> (strip f \<noteq> [] \<and> strip l \<noteq> [] \<and> (ty = ''checking'' \<or> ty = ''savings'')
      \<and> is_valid_currency c \<and> 0 \<le> d
      \<and> generate_account_number db draws = Some n
      \<and> run db others = Some db0
      \<and> n \<in> account_number ` set (accounts db0)
    \<longrightarrow> create_account_between db now draws f l ty c d others
          = Some (Inl DuplicateIdentifier, db0))
   \<and> create_account_between db now draws f l ty c d [] = create_account db now draws f l ty c d
   \<and> (well_formed db
      \<and> create_account_between db now draws f l ty c d others = Some (res, db1)
    \<longrightarrow> distinct (map account_number (accounts db1)))
   \<and> (run empty_db ops = Some db2 \<longrightarrow> distinct (map account_number (accounts db2)))"
proof (intro conjI impI)
  assume a: "strip f \<noteq> [] \<and> strip l \<noteq> [] \<and> (ty = ''checking'' \<or> ty = ''savings'')
      \<and> is_valid_currency c \<and> 0 \<le> d
      \<and> list_all (\<lambda>r. str_nat r \<in> account_number ` set (accounts db)) taken
      \<and> str_nat r0 \<notin> account_number ` set (accounts db)"
  then have "\<forall>r \<in> set taken. str_nat r \<in> account_number ` set (accounts db)"
    by (simp add: list_all_iff)
  from generate_account_number_skips [OF this] a
  have g: "generate_account_number db (taken @ r0 # rest) = Some (str_nat r0)" by blast
  from a have v: "strip f \<noteq> []" "strip l \<noteq> []" "ty = ''checking'' \<or> ty = ''savings''"
    "is_valid_currency c" "0 \<le> d" by blast+
  show "case create_account db now (taken @ r0 # rest) f l ty c d of
           Some (Inr acct, db') \<Rightarrow>
             map_of acct ''account_number'' = Some (PyStr (str_nat r0))
             \<and> account_number (last (accounts db')) = str_nat r0
         | _ \<Rightarrow> False"
    unfolding create_account_success [OF v g] by simp
next
  assume "create_account db now draws f l ty c d = Some (res, db1)"
  from create_account_cases [OF this] show "res \<noteq> Inl DuplicateIdentifier"
    by (auto simp: DuplicateIdentifier_def)
next
  show "insert_account db now n f l ty c d = Inl DuplicateIdentifier
        \<longleftrightarrow> n \<in> account_number ` set (accounts db)"
    by (auto simp: insert_account_def DuplicateIdentifier_def Let_def)
next
  assume a: "strip f \<noteq> [] \<and> strip l \<noteq> [] \<and> (ty = ''checking'' \<or> ty = ''savings'')
      \<and> is_valid_currency c \<and> 0 \<le> d
      \<and> generate_account_number db draws = Some n
      \<and> run db others = Some db0
      \<and> n \<in> account_number ` set (accounts db0)"
  then have v: "strip f \<noteq> []" "strip l \<noteq> []" "ty = ''checking'' \<or> ty = ''savings''"
    "is_valid_currency c" "0 \<le> d" "generate_account_number db draws = Some n"
    "run db others = Some db0" "n \<in> account_number ` set (accounts db0)" by blast+
  show "create_account_between db now draws f l ty c d others = Some (Inl DuplicateIdentifier, db0)"
    by (rule create_account_between_taken [OF v])
next
  show "create_account_between db now draws f l ty c d [] = create_account db now draws f l ty c d"
    by (rule create_account_between_Nil)
next
  assume a: "well_formed db
      \<and> create_account_between db now draws f l ty c d others = Some (res, db1)"
  then have w: "well_formed db"
    and c: "create_account_between db now draws f l ty c d others = Some (res, db1)" by blast+
  have d: "distinct (map account_number (accounts db))"
    using w by (simp add: well_formed_def)
  from create_account_between_cases [OF c]
  show "distinct (map account_number (accounts db1))"
  proof (elim disjE exE conjE)
    assume "db1 = db"
    then show ?thesis using d by simp
  next
    fix db0 assume "run db others = Some db0" "db1 = db0"
    then show ?thesis using run_preserves [OF _ w] by (simp add: well_formed_def)
  next
    fix db0 r assume r: "run db others = Some db0"
      and f: "account_number r \<notin> account_number ` set (accounts db0)"
      and e: "accounts db1 = accounts db0 @ [r]"
    have "distinct (map account_number (accounts db0))"
      using run_preserves [OF r w] by (simp add: well_formed_def)
    then show ?thesis using f unfolding e by simp
  qed
next
  assume "run empty_db ops = Some db2"
  from run_empty_db(1) [OF this] show "distinct (map account_number (accounts db2))"
    by (simp add: well_formed_def)
qed

theorem create_account_collisions_witness:
  "list_all (\<lambda>r. str_nat r \<in> account_number ` set (accounts (scenario1_db 5 6 7))) [123456]
   \<and> str_nat 654321 \<notin> account_number ` set (accounts (scenario1_db 5 6 7))
   \<and> (case create_account (scenario1_db 5 6 7) 8 [123456, 654321] ''Bob'' ''Ray'' ''savings'' ''BB'' 0 of
         Some (Inr acct, db') \<Rightarrow>
           map_of acct ''account_number'' = Some (PyStr ''654321'')
           \<and> map account_number (accounts db') = [''123456'', ''654321'']
       | _ \<Rightarrow> False)
   \<and> run empty_db (scenario1 5 6 7) = Some (scenario1_db 5 6 7)
   \<and> distinct (map account_number (accounts (scenario1_db 5 6 7)))
   \<and> well_formed empty_db
   \<and> generate_account_number empty_db [123456, 654321] = Some ''123456''
   \<and> run empty_db [(5, CreateAccount [123456] ''Alice'' ''Lee'' ''checking'' ''USD'' 0)]
       = Some \<lparr>accounts = [\<lparr>a_id = 1, account_number = ''123456'', first_name = ''Alice'',
                            last_name = ''Lee'', account_type = ''checking'', currency = ''USD'',
                            balance = 0, a_created_at = 5\<rparr>],
               transactions = [], account_seq = 1, transaction_seq = 0\<rparr>
   \<and> create_account_between empty_db 6 [123456, 654321] ''Bob'' ''Ray'' ''savings'' ''BB'' 0
        [(5, CreateAccount [123456] ''Alice'' ''Lee'' ''checking'' ''USD'' 0)]
      = Some (Inl DuplicateIdentifier,
              \<lparr>accounts = [\<lparr>a_id = 1, account_number = ''123456'', first_name = ''Alice'',
                             last_name = ''Lee'', account_type = ''checking'', currency = ''USD'',
                             balance = 0, a_created_at = 5\<rparr>],
               transactions = [], account_seq = 1, transaction_seq = 0\<rparr>)"
proof -
  have t: "list_all (\<lambda>r. str_nat r \<in> account_number ` set (accounts (scenario1_db 5 6 7))) [123456]"
    and r0: "str_nat 654321 \<notin> account_number ` set (accounts (scenario1_db 5 6 7))"
    by (simp_all add: scenario1_numbers str_nat_123456 str_nat_654321)
  have v: "strip ''Bob'' \<noteq> []" "strip ''Ray'' \<noteq> []" "is_valid_currency ''BB''"
    by (simp_all add: strip_Bob_Ray is_valid_currency_iff)
  have g: "generate_account_number (scenario1_db 5 6 7) [123456, 654321] = Some ''654321''"
    using generate_account_number_skips [of "[123456]" "scenario1_db 5 6 7" 654321 "[]"] t r0
    by (simp add: str_nat_654321)
  have c: "case create_account (scenario1_db 5 6 7) 8 [123456, 654321] ''Bob'' ''Ray'' ''savings'' ''BB'' 0 of
         Some (Inr acct, db') \<Rightarrow>
           map_of acct ''account_number'' = Some (PyStr ''654321'')
           \<and> map account_number (accounts db') = [''123456'', ''654321'']
       | _ \<Rightarrow> False"
    unfolding create_account_success [OF v(1,2) _ v(3) _ g, of "''savings''" 0 8, simplified]
    by (simp add: scenario1_db_def)
  have n: "''123456'' \<in> account_number ` set (accounts
              \<lparr>accounts = [\<lparr>a_id = 1, account_number = ''123456'', first_name = ''Alice'',
                             last_name = ''Lee'', account_type = ''checking'', currency = ''USD'',
                             balance = 0, a_created_at = 5\<rparr>],
               transactions = [], account_seq = 1, transaction_seq = 0\<rparr>)"
    by simp
  from create_account_collisions
    [where f = "''Bob''" and l = "''Ray''" and ty = "''savings''" and c = "''BB''" and d = 0
       and db = empty_db and now = 6 and draws = "[123456, 654321]" and n = "''123456''"
       and others = "[(5, CreateAccount [123456] ''Alice'' ''Lee'' ''checking'' ''USD'' 0)]"
       and ?db0.0 = "\<lparr>accounts = [\<lparr>a_id = 1, account_number = ''123456'', first_name = ''Alice'',
                             last_name = ''Lee'', account_type = ''checking'', currency = ''USD'',
                             balance = 0, a_created_at = 5\<rparr>],
               transactions = [], account_seq = 1, transaction_seq = 0\<rparr>"
       and ops = "scenario1 5 6 7" and ?db2.0 = "scenario1_db 5 6 7"]
  have b: "create_account_between empty_db 6 [123456, 654321] ''Bob'' ''Ray'' ''savings'' ''BB'' 0
        [(5, CreateAccount [123456] ''Alice'' ''Lee'' ''checking'' ''USD'' 0)]
      = Some (Inl DuplicateIdentifier,
              \<lparr>accounts = [\<lparr>a_id = 1, account_number = ''123456'', first_name = ''Alice'',
                             last_name = ''Lee'', account_type = ''checking'', currency = ''USD'',
                             balance = 0, a_created_at = 5\<rparr>],
               transactions = [], account_seq = 1, transaction_seq = 0\<rparr>)"
    and d: "distinct (map account_number (accounts (scenario1_db 5 6 7)))"
    using v generate_first_draw scenario1_create_run run_scenario1 n by simp_all
  show ?thesis
    using t r0 c d b run_scenario1 generate_first_draw scenario1_create_run empty_db_ok(1)
    by simp
qed

subsection \<open>The order of \<^verbatim>\<open>get_transactions\<close>\<close>

text \<open>
  C7. \<^verbatim>\<open>get_transactions\<close> returns at most \<open>limit\<close> transactions of the account (for a limit
  that is not negative), and its docstring promises "most recent first". The query orders
  by \<^verbatim>\<open>created_at\<close> alone, which has a resolution of one second. When the three calls of
  scenario 1 read three different seconds, the result is the withdrawal of 30 (balance 70)
  followed by the deposit of 100 (balance 100). When they read the same second, both
  transactions have the same key and the result is the deposit followed by the
  withdrawal: the oldest first.
\<close>

theorem get_transactions_within_one_second:
  "map (\<lambda>t. (transaction_type t, amount t, balance_after t, t_created_at t))
       (get_transactions (scenario1_db 5 6 7) ''123456'' 10)
     = [(''withdrawal'', 30, 70, 7), (''deposit'', 100, 100, 6)]
   \<and> map (\<lambda>t. (transaction_type t, amount t, balance_after t, t_created_at t))
         (get_transactions (scenario1_db 5 5 5) ''123456'' 10)
     = [(''deposit'', 100, 100, 5), (''withdrawal'', 30, 70, 5)]
   \<and> length (get_transactions (scenario1_db 5 5 5) ''123456'' 1) = 1"
  by (simp add: get_transactions_def scenario1_db_def)

















subsection \<open>The rendering of amounts\<close>




subsection \<open>Validation order of deposit and withdraw\<close>

text \<open>
  C10. For \<^verbatim>\<open>deposit\<close> and \<^verbatim>\<open>withdraw\<close> the check of the amount comes before the look-up of
  the account: with an amount that is not positive and an identifier that no account has,
  either operation fails with the \<open>InvalidArgument\<close> error "... amount must be positive",
  not with \<open>UnknownAccount\<close>, and the store is left as it was.
\<close>

theorem amount_checked_before_account:
  assumes "amt \<le> 0" and "get_account db number = None"
  shows "deposit db now number amt descr = (Inl (ValueError ''Deposit amount must be positive''), db)
       \<and> withdraw db now number amt descr = (Inl (ValueError ''Withdrawal amount must be positive''), db)
       \<and> InvalidArgument (ValueError ''Deposit amount must be positive'')
       \<and> InvalidArgument (ValueError ''Withdrawal amount must be positive'')
       \<and> fst (deposit db now number amt descr) \<noteq> Inl (UnknownAccount number)
       \<and> fst (withdraw db now number amt descr) \<noteq> Inl (UnknownAccount number)"
  using assms by (simp add: deposit_def withdraw_def UnknownAccount_def)

theorem amount_checked_before_account_witness:
  "(-5 :: rat) \<le> 0 \<and> get_account empty_db ''123456'' = None
   \<and> deposit empty_db 0 ''123456'' (-5) [] = (Inl (ValueError ''Deposit amount must be positive''), empty_db)
   \<and> withdraw empty_db 0 ''123456'' (-5) [] = (Inl (ValueError ''Withdrawal amount must be positive''), empty_db)"
proof -
  have g: "get_account empty_db ''123456'' = None"
    by (simp add: get_account_def empty_db_def)
  have a: "(-5 :: rat) \<le> 0" by simp
  show ?thesis
    using g a amount_checked_before_account [OF a g, of 0 "[]"] by simp
qed

end
